theory Spec2Isabelle
  imports Complex_Main
begin

section \<open>JavaScript values\<close>

text \<open>
  The services exchange JSON with the storefront and with the eShopaid server, and the
  code inspects these values dynamically (truthiness, optional chaining, \<open>Array.isArray\<close>).
  The embedding therefore works on a datatype of JavaScript values. Strings are
  \<open>char list\<close>; a number is a rational (every finite double is one) or one of the three
  non-finite doubles. The addition of two doubles is the host's and is taken as a
  parameter; only the integer arithmetic of the code (an index plus one, a length, a
  millisecond timestamp plus a lifetime), which doubles carry out exactly, is written
  with the arithmetic of HOL.
\<close>

datatype jsnum = Num rat | NaN | Infinity | NegInfinity

datatype jsval =
    JUndefined
  | JNull
  | JBool bool
  | JNum jsnum
  | JStr string
  | JArr "jsval list"
  | JObj "(string \<times> jsval) list"

text \<open>A thrown value: the built-in error classes the code can raise, and the transport
  error thrown by the HTTP client. Each carries its \<open>message\<close>.\<close>

datatype error =
    TypeError string
  | RangeError string
  | Error string
  | AxiosError string

fun message :: "error \<Rightarrow> string" where
  "message (TypeError m) = m"
| "message (RangeError m) = m"
| "message (Error m) = m"
| "message (AxiosError m) = m"

fun errName :: "error \<Rightarrow> string" where
  "errName (TypeError m) = ''TypeError''"
| "errName (RangeError m) = ''RangeError''"
| "errName (Error m) = ''Error''"
| "errName (AxiosError m) = ''AxiosError''"

text \<open>\<open>!!v\<close>: the falsy values are \<open>undefined\<close>, \<open>null\<close>, \<open>false\<close>, \<open>0\<close>, \<open>NaN\<close> and \<open>''\<close>.\<close>

fun truthy :: "jsval \<Rightarrow> bool" where
  "truthy JUndefined = False"
| "truthy JNull = False"
| "truthy (JBool b) = b"
| "truthy (JNum (Num q)) = (q \<noteq> 0)"
| "truthy (JNum NaN) = False"
| "truthy (JNum Infinity) = True"
| "truthy (JNum NegInfinity) = True"
| "truthy (JStr s) = (s \<noteq> [])"
| "truthy (JArr xs) = True"
| "truthy (JObj kvs) = True"

text \<open>\<open>v == null\<close>\<close>

fun nullish :: "jsval \<Rightarrow> bool" where
  "nullish JUndefined = True"
| "nullish JNull = True"
| "nullish v = False"

text \<open>\<open>a || b\<close>\<close>

definition orElse :: "jsval \<Rightarrow> jsval \<Rightarrow> jsval" where
  "orElse a b = (if truthy a then a else b)"

text \<open>
  \<open>v.k\<close>: reading a property of \<open>undefined\<close> or \<open>null\<close> throws a TypeError; an object
  yields the stored value or \<open>undefined\<close>; any other value yields \<open>undefined\<close> (none of the
  property names the services read is a member of a built-in prototype).
\<close>

fun getProp :: "jsval \<Rightarrow> string \<Rightarrow> error + jsval" where
  "getProp JUndefined k =
     Inl (TypeError (''Cannot read properties of undefined (reading '' @ [CHR 0x27] @ k @
                       [CHR 0x27] @ '')''))"
| "getProp JNull k =
     Inl (TypeError (''Cannot read properties of null (reading '' @ [CHR 0x27] @ k @
                       [CHR 0x27] @ '')''))"
| "getProp (JObj kvs) k = Inr (case map_of kvs k of None \<Rightarrow> JUndefined | Some v \<Rightarrow> v)"
| "getProp v k = Inr JUndefined"

text \<open>\<open>v?.k\<close>\<close>

definition getOpt :: "jsval \<Rightarrow> string \<Rightarrow> jsval" where
  "getOpt v k = (case getProp v k of Inl e \<Rightarrow> JUndefined | Inr x \<Rightarrow> x)"

text \<open>\<open>v?.[0]\<close>\<close>

fun getOpt0 :: "jsval \<Rightarrow> jsval" where
  "getOpt0 (JArr xs) = (case xs of [] \<Rightarrow> JUndefined | x # _ \<Rightarrow> x)"
| "getOpt0 (JStr s) = (case s of [] \<Rightarrow> JUndefined | c # _ \<Rightarrow> JStr [c])"
| "getOpt0 (JObj kvs) = (case map_of kvs ''0'' of None \<Rightarrow> JUndefined | Some v \<Rightarrow> v)"
| "getOpt0 v = JUndefined"

text \<open>Sequencing of computations that may throw.\<close>

definition bindE :: "error + 'a \<Rightarrow> ('a \<Rightarrow> error + 'b) \<Rightarrow> error + 'b" where
  "bindE m f = (case m of Inl e \<Rightarrow> Inl e | Inr v \<Rightarrow> f v)"

text \<open>\<open>xs.map(f)\<close> where \<open>f\<close> receives the element and its index and may throw: the first
  throw aborts the whole map.\<close>

fun mapE :: "(jsval \<Rightarrow> nat \<Rightarrow> error + 'b) \<Rightarrow> nat \<Rightarrow> jsval list \<Rightarrow> error + 'b list" where
  "mapE f i [] = Inr []"
| "mapE f i (x # xs) =
     bindE (f x i) (\<lambda>y. bindE (mapE f (Suc i) xs) (\<lambda>ys. Inr (y # ys)))"

text \<open>\<open>s.toLowerCase()\<close> on the ASCII letters.\<close>

definition lowerChar :: "char \<Rightarrow> char" where
  "lowerChar c =
     (case map_of (zip ''ABCDEFGHIJKLMNOPQRSTUVWXYZ'' ''abcdefghijklmnopqrstuvwxyz'') c of
        None \<Rightarrow> c | Some d \<Rightarrow> d)"

definition toLowerCase :: "string \<Rightarrow> string" where
  "toLowerCase s = map lowerChar s"

text \<open>\<open>a > 0\<close> on numbers.\<close>

fun positive :: "jsnum \<Rightarrow> bool" where
  "positive (Num q) = (0 < q)"
| "positive Infinity = True"
| "positive n = False"

text \<open>
  Built-ins of the host that the code calls and that are taken as parameters: the number
  \<open>parseFloat\<close> reads at the head of a string; the sum of two doubles; the decimal spelling
  of a number; the string conversion of an array or an object, which throws a TypeError
  on an object whose \<open>toString\<close> is not callable; and, for a value that is not an object,
  the ISO text of \<open>new Date(v)\<close> (\<open>None\<close> for an invalid date) and its local day, month
  index and year (\<open>None\<close> when its time value is NaN).
\<close>

record builtins =
  floatOfString :: "string \<Rightarrow> jsnum"
  addDouble :: "jsnum \<Rightarrow> jsnum \<Rightarrow> jsnum"
  numberToString :: "jsnum \<Rightarrow> string"
  objectToString :: "jsval \<Rightarrow> error + string"
  isoString :: "jsval \<Rightarrow> string option"
  localDate :: "jsval \<Rightarrow> (int \<times> int \<times> int) option"

text \<open>\<open>ToString(v)\<close> as used by template literals, \<open>String(v)\<close> and \<open>v.toString()\<close> on a
  value that is neither null nor undefined: a primitive never throws, an array or an
  object is converted by the host.\<close>

definition toStr :: "builtins \<Rightarrow> jsval \<Rightarrow> error + string" where
  "toStr b v =
     (case v of
        JStr s \<Rightarrow> Inr s
      | JUndefined \<Rightarrow> Inr ''undefined''
      | JNull \<Rightarrow> Inr ''null''
      | JBool x \<Rightarrow> Inr (if x then ''true'' else ''false'')
      | JNum n \<Rightarrow> Inr (numberToString b n)
      | _ \<Rightarrow> objectToString b v)"

text \<open>\<open>ToPrimitive(v)\<close>: an array or an object parsed from JSON has no \<open>valueOf\<close> that
  yields a primitive, so it is converted by its \<open>toString\<close>, or throws where that
  throws; any other value is left as it is.\<close>

definition toPrimitive :: "builtins \<Rightarrow> jsval \<Rightarrow> error + jsval" where
  "toPrimitive b v =
     (case v of
        JArr xs \<Rightarrow> bindE (objectToString b v) (\<lambda>t. Inr (JStr t))
      | JObj kvs \<Rightarrow> bindE (objectToString b v) (\<lambda>t. Inr (JStr t))
      | _ \<Rightarrow> Inr v)"

text \<open>\<open>parseFloat(v)\<close> converts its argument to a string first, and throws where that
  conversion throws.\<close>

definition parseFloat :: "builtins \<Rightarrow> jsval \<Rightarrow> error + jsnum" where
  "parseFloat b v = bindE (toStr b v) (\<lambda>t. Inr (floatOfString b t))"

text \<open>\<open>new Date(v).toISOString()\<close>: the constructor converts an object to a primitive
  first (a TypeError where that throws); \<open>new Date(undefined)\<close> is an invalid date, on
  which \<open>toISOString\<close> throws a RangeError.\<close>

definition toISOString :: "builtins \<Rightarrow> jsval \<Rightarrow> error + string" where
  "toISOString b v =
     bindE (toPrimitive b v) (\<lambda>p.
       case (if p = JUndefined then None else isoString b p) of
         None \<Rightarrow> Inl (RangeError ''Invalid time value'')
       | Some t \<Rightarrow> Inr t)"

text \<open>\<open>dob = new Date(v)\<close> followed by \<open>dob.getDate()\<close>, \<open>dob.getMonth()\<close> and
  \<open>dob.getFullYear()\<close>, or \<open>None\<close> when \<open>isNaN(dob.getTime())\<close>.\<close>

definition localDateOf :: "builtins \<Rightarrow> jsval \<Rightarrow> error + (int \<times> int \<times> int) option" where
  "localDateOf b v =
     bindE (toPrimitive b v) (\<lambda>p. Inr (if p = JUndefined then None else localDate b p))"

section \<open>Configuration (config.js)\<close>

text \<open>The settings read from the process environment are a parameter; the rest of
  \<open>config.js\<close> is constant.\<close>

record settings =
  serverUrl :: string
  username :: string
  password :: string
  storeLocation :: string
  sourceChannel :: string

definition tokenEndpoint :: string where "tokenEndpoint = ''/Token''"
definition processDataEndpoint :: string where "processDataEndpoint = ''/ProcessData''"
definition tokenLifetimeMinutes :: int where "tokenLifetimeMinutes = 30"
definition tokenRefreshBuffer :: int where "tokenRefreshBuffer = 5"

definition GET_TOKEN :: string where "GET_TOKEN = ''GetToken''"
definition GET_INVENTORY :: string where "GET_INVENTORY = ''GetInventory''"
definition ADD_CUSTOMER :: string where "ADD_CUSTOMER = ''AddCustomer''"
definition MODIFY_CUSTOMER :: string where "MODIFY_CUSTOMER = ''ModifyCustomer''"
definition CREATE_SALES_ORDER :: string where "CREATE_SALES_ORDER = ''CreateSalesOrder''"
definition SET_ORDER_STATUS :: string where "SET_ORDER_STATUS = ''SetOrderStatus''"

section \<open>The network and the clock\<close>

text \<open>
  A request as handed to \<open>axios.post\<close>. The environment answers the \<open>n\<close>-th request of a
  run either with a fault (the promise rejects) or with the body \<open>response.data\<close>, and
  gives the value of \<open>Date.now()\<close> after \<open>n\<close> requests have completed: synchronous code
  takes no time, the clock moves only while a request is awaited.
\<close>

record request =
  url :: string
  body :: jsval
  headers :: "(string \<times> jsval) list"

datatype reply = Fault error | Data jsval

record env =
  net :: "nat \<Rightarrow> request \<Rightarrow> reply"
  clock :: "nat \<Rightarrow> int"

text \<open>The state of the process: the singleton TokenManager's two fields and the
  requests sent so far, oldest first.\<close>

record world =
  token :: jsval
  tokenExpiry :: "int option"
  sent :: "request list"

definition now :: "env \<Rightarrow> world \<Rightarrow> int" where
  "now e w = clock e (length (sent w))"

section \<open>TokenManager (token-manager.js)\<close>

definition constructor :: world where
  "constructor = \<lparr>token = JNull, tokenExpiry = None, sent = []\<rparr>"

text \<open>\<open>isTokenValid\<close>, with the value of \<open>Date.now()\<close> as argument. \<open>!this.tokenExpiry\<close> holds
  for \<open>null\<close> and for \<open>0\<close>.\<close>

definition isTokenValid :: "world \<Rightarrow> int \<Rightarrow> bool" where
  "isTokenValid w t =
     (if \<not> truthy (token w) \<or> tokenExpiry w = None \<or> tokenExpiry w = Some 0 then False
      else (let bufferMs = tokenRefreshBuffer * 60 * 1000
            in case tokenExpiry w of None \<Rightarrow> False | Some x \<Rightarrow> t < x - bufferMs))"

text \<open>The regular expression \<open><Access_Token>(.*?)<\/Access_Token>\<close>: leftmost match, lazy
  capture, \<open>.\<close> does not match a line terminator (line feed and carriage return; the two
  Unicode separators do not occur in a \<open>char list\<close>).\<close>

definition startsWith :: "string \<Rightarrow> string \<Rightarrow> bool" where
  "startsWith p s = (take (length p) s = p)"

definition lineTerminator :: "char \<Rightarrow> bool" where
  "lineTerminator c = (c = CHR 0x0A \<or> c = CHR 0x0D)"

fun lazyCapture :: "string \<Rightarrow> string \<Rightarrow> string option" where
  "lazyCapture acc s =
     (if startsWith ''</Access_Token>'' s then Some (rev acc)
      else (case s of [] \<Rightarrow> None
            | c # cs \<Rightarrow> if lineTerminator c then None else lazyCapture (c # acc) cs))"

fun xmlMatch :: "string \<Rightarrow> string option" where
  "xmlMatch [] = None"
| "xmlMatch (c # cs) =
     (if startsWith ''<Access_Token>'' (c # cs) then
        (case lazyCapture [] (drop 14 (c # cs)) of
           Some t \<Rightarrow> Some t
         | None \<Rightarrow> xmlMatch cs)
      else xmlMatch cs)"

text \<open>The body of the \<open>try\<close> of \<open>generateToken\<close> between the response and the test of
  \<open>accessToken\<close>: a string is searched for the XML element, anything else is read as the
  JSON envelope.\<close>

definition extractAccessToken :: "jsval \<Rightarrow> error + jsval" where
  "extractAccessToken data =
     (case data of
        JStr s \<Rightarrow> (case xmlMatch s of Some t \<Rightarrow> Inr (JStr t) | None \<Rightarrow> Inr JUndefined)
      | _ \<Rightarrow> bindE (getProp data ''Response'') (\<lambda>r.
               if truthy r then getProp r ''Access_Token'' else Inr JUndefined))"

definition tokenRequest :: "settings \<Rightarrow> request" where
  "tokenRequest s =
     \<lparr>url = serverUrl s @ tokenEndpoint,
      body = JStr '''',
      headers = [(''SERVICE_METHODNAME'', JStr GET_TOKEN),
                 (''Username'', JStr (username s)),
                 (''Password'', JStr (password s)),
                 (''Content-Type'', JStr ''application/json'')]\<rparr>"

text \<open>\<open>generateToken\<close>: the \<open>catch\<close> logs and rethrows, so a failure leaves the two fields
  as they were.\<close>

definition generateToken :: "env \<Rightarrow> settings \<Rightarrow> world \<Rightarrow> (error + jsval) \<times> world" where
  "generateToken e s w =
     (let req = tokenRequest s;
          w1 = w\<lparr>sent := sent w @ [req]\<rparr>
      in case net e (length (sent w)) req of
           Fault err \<Rightarrow> (Inl err, w1)
         | Data data \<Rightarrow>
             (case extractAccessToken data of
                Inl err \<Rightarrow> (Inl err, w1)
              | Inr accessToken \<Rightarrow>
                  if truthy accessToken then
                    (Inr accessToken,
                     w1\<lparr>token := accessToken,
                        tokenExpiry := Some (now e w1 + tokenLifetimeMinutes * 60 * 1000)\<rparr>)
                  else (Inl (Error ''Failed to extract token from response''), w1)))"

definition getToken :: "env \<Rightarrow> settings \<Rightarrow> world \<Rightarrow> (error + jsval) \<times> world" where
  "getToken e s w =
     (if isTokenValid w (now e w) then (Inr (token w), w) else generateToken e s w)"

definition refreshToken :: "env \<Rightarrow> settings \<Rightarrow> world \<Rightarrow> (error + jsval) \<times> world" where
  "refreshToken e s w = generateToken e s w"

definition clearToken :: "world \<Rightarrow> world" where
  "clearToken w = w\<lparr>token := JNull, tokenExpiry := None\<rparr>"

section \<open>Gateway request (makeRequest, identical in the three services)\<close>

definition makeRequest ::
  "env \<Rightarrow> settings \<Rightarrow> string \<Rightarrow> jsval \<Rightarrow> world \<Rightarrow> (error + jsval) \<times> world" where
  "makeRequest e s method data w =
     (case getToken e s w of
        (Inl err, w1) \<Rightarrow> (Inl err, w1)
      | (Inr tok, w1) \<Rightarrow>
          (let req = \<lparr>url = serverUrl s @ processDataEndpoint,
                      body = data,
                      headers = [(''SERVICE_METHODNAME'', JStr method),
                                 (''AUTHORIZATION'', tok),
                                 (''Content-Type'', JStr ''application/json'')]\<rparr>;
               w2 = w1\<lparr>sent := sent w1 @ [req]\<rparr>
           in case net e (length (sent w1)) req of
                Fault err \<Rightarrow> (Inl err, w2)
              | Data d \<Rightarrow> (Inr d, w2)))"

section \<open>OrderService (order-service.js)\<close>

text \<open>
  The two lookup tables are object literals indexed with a lower-cased name. Besides
  their own keys such a literal answers to the two lower-case members it inherits,
  \<open>constructor\<close> (a function, which the JSON serialisation of the request drops: it is
  \<open>undefined\<close> on the wire) and \<open>__proto__\<close> (an object without own properties).
\<close>

definition inherited :: "string \<Rightarrow> jsval option" where
  "inherited k =
     (if k = ''constructor'' then Some JUndefined
      else if k = ''__proto__'' then Some (JObj [])
      else None)"

definition lookupOr :: "(string \<times> string) list \<Rightarrow> string \<Rightarrow> string \<Rightarrow> jsval" where
  "lookupOr table k dflt =
     (case map_of table k of
        Some v \<Rightarrow> (if v = [] then JStr dflt else JStr v)
      | None \<Rightarrow> (case inherited k of Some h \<Rightarrow> h | None \<Rightarrow> JStr dflt))"

definition gatewayMap :: "(string \<times> string) list" where
  "gatewayMap =
     [(''shopify_payments'', ''CreditCard''), (''paypal'', ''PayPal''),
      (''razorpay'', ''OnlinePayment''), (''paytm'', ''OnlinePayment''),
      (''cod'', ''Cash''), (''cash_on_delivery'', ''Cash''), (''manual'', ''Cash'')]"

definition gstCodes :: "(string \<times> string) list" where
  "gstCodes =
     [(''jammu and kashmir'', ''01''), (''himachal pradesh'', ''02''), (''punjab'', ''03''),
      (''chandigarh'', ''04''), (''uttarakhand'', ''05''), (''haryana'', ''06''),
      (''delhi'', ''07''), (''rajasthan'', ''08''), (''uttar pradesh'', ''09''),
      (''bihar'', ''10''), (''sikkim'', ''11''), (''arunachal pradesh'', ''12''),
      (''nagaland'', ''13''), (''manipur'', ''14''), (''mizoram'', ''15''),
      (''tripura'', ''16''), (''meghalaya'', ''17''), (''assam'', ''18''),
      (''west bengal'', ''19''), (''jharkhand'', ''20''), (''odisha'', ''21''),
      (''chattisgarh'', ''22''), (''madhya pradesh'', ''23''), (''gujarat'', ''24''),
      (''dadra and nagar haveli'', ''26''), (''maharashtra'', ''27''), (''karnataka'', ''29''),
      (''goa'', ''30''), (''lakshadweep'', ''31''), (''kerala'', ''32''),
      (''tamil nadu'', ''33''), (''puducherry'', ''34''), (''andaman and nicobar'', ''35''),
      (''telangana'', ''36''), (''andhra pradesh'', ''37''), (''ladakh'', ''38'')]"

text \<open>\<open>name?.toLowerCase()\<close> as a table key: \<open>undefined\<close> when the name is null or undefined
  (the key is then the string \<open>undefined\<close>), a TypeError when it is not a string.\<close>

definition lowerKey :: "string \<Rightarrow> jsval \<Rightarrow> error + string" where
  "lowerKey var v =
     (if nullish v then Inr ''undefined''
      else (case v of
              JStr g \<Rightarrow> Inr (toLowerCase g)
            | _ \<Rightarrow> Inl (TypeError (var @ ''?.toLowerCase is not a function''))))"

definition mapPaymentGateway :: "jsval \<Rightarrow> error + jsval" where
  "mapPaymentGateway gateway =
     bindE (lowerKey ''gateway'' gateway) (\<lambda>k. Inr (lookupOr gatewayMap k ''OnlinePayment''))"

definition getStateGSTCode :: "jsval \<Rightarrow> error + jsval" where
  "getStateGSTCode stateName =
     bindE (lowerKey ''stateName'' stateName) (\<lambda>k. Inr (lookupOr gstCodes k ''''))"

text \<open>The callback of \<open>order.line_items.map\<close>.\<close>

definition transformItem :: "builtins \<Rightarrow> jsval \<Rightarrow> nat \<Rightarrow> error + jsval" where
  "transformItem b item index =
     bindE (getProp item ''sku'') (\<lambda>sku.
     bindE (if truthy sku then Inr sku
            else if nullish (getOpt item ''variant_id'') then Inr JUndefined
            else bindE (toStr b (getOpt item ''variant_id'')) (\<lambda>t. Inr (JStr t))) (\<lambda>itemCode.
     bindE (parseFloat b (getOpt item ''price'')) (\<lambda>rate.
     bindE (parseFloat b (orElse (getOpt item ''total_discount'') (JNum (Num 0)))) (\<lambda>discount.
     Inr (JObj
       [(''LineNumber'', JNum (Num (of_nat index + 1))),
        (''ItemCode'', itemCode),
        (''Quantity'', getOpt item ''quantity''),
        (''Rate'', JNum rate),
        (''DiscountAmount'', JNum discount),
        (''LineRemarks'', getOpt item ''name'')])))))"

text \<open>\<open>order.line_items.map(...)\<close>: a TypeError unless \<open>line_items\<close> is an array.\<close>

definition transformItems :: "builtins \<Rightarrow> jsval \<Rightarrow> error + jsval list" where
  "transformItems b lineItems =
     (case lineItems of
        JArr xs \<Rightarrow> mapE (transformItem b) 0 xs
      | JUndefined \<Rightarrow> Inl (TypeError ''Cannot read properties of undefined (reading 'map')'')
      | JNull \<Rightarrow> Inl (TypeError ''Cannot read properties of null (reading 'map')'')
      | _ \<Rightarrow> Inl (TypeError ''order.line_items.map is not a function''))"

text \<open>\<open>lines.reduce((sum, line) => sum + parseFloat(line.price || 0), sum0)\<close>\<close>

fun sumShipping :: "builtins \<Rightarrow> jsnum \<Rightarrow> jsval list \<Rightarrow> error + jsnum" where
  "sumShipping b acc [] = Inr acc"
| "sumShipping b acc (line # lines) =
     bindE (getProp line ''price'') (\<lambda>price.
     bindE (parseFloat b (orElse price (JNum (Num 0)))) (\<lambda>amount.
       sumShipping b (addDouble b acc amount) lines))"

text \<open>\<open>order.shipping_lines?.reduce(..., 0) || 0\<close>\<close>

definition shippingChargeOf :: "builtins \<Rightarrow> jsval \<Rightarrow> error + jsnum" where
  "shippingChargeOf b shippingLines =
     (if nullish shippingLines then Inr (Num 0)
      else (case shippingLines of
              JArr lines \<Rightarrow>
                bindE (sumShipping b (Num 0) lines) (\<lambda>total.
                  Inr (if truthy (JNum total) then total else Num 0))
            | _ \<Rightarrow> Inl (TypeError ''order.shipping_lines?.reduce is not a function'')))"

text \<open>\<open>transformShopifyOrder\<close>. The header's \<open>parseFloat(order.total_price)\<close> repeats
  the call made for the payment, with the same result.\<close>

definition transformShopifyOrder :: "builtins \<Rightarrow> settings \<Rightarrow> jsval \<Rightarrow> error + jsval" where
  "transformShopifyOrder b s order =
     bindE (getProp order ''customer'') (\<lambda>c.
     let customer = orElse c (JObj []);
         shippingAddress = orElse (getOpt order ''shipping_address'')
                             (orElse (getOpt order ''billing_address'') (JObj []));
         billingAddress = orElse (getOpt order ''billing_address'') (JObj [])
     in
     bindE (toISOString b (getOpt order ''created_at'')) (\<lambda>isoText.
     let formattedDate = filter (\<lambda>ch. ch \<noteq> CHR ''-'') (take 10 isoText) in
     bindE (transformItems b (getOpt order ''line_items'')) (\<lambda>items.
     bindE (shippingChargeOf b (getOpt order ''shipping_lines'')) (\<lambda>shippingCharge.
     let otherCharges =
           (if positive shippingCharge then
              JObj [(''Charge'', JArr [JObj
                [(''ChargeDescription'', JStr ''Shipping''),
                 (''ChargeValue'', JNum shippingCharge),
                 (''ChargeReference'',
                    orElse (getOpt (getOpt0 (getOpt order ''shipping_lines'')) ''title'')
                      (JStr ''Standard Shipping''))]])]
            else JObj [])
     in
     bindE (mapPaymentGateway (getOpt order ''gateway'')) (\<lambda>paymentMode.
     bindE (parseFloat b (getOpt order ''total_price'')) (\<lambda>totalPrice.
     let payments =
           JObj [(''Payment'', JArr [JObj
             [(''PaymentMode'', paymentMode),
              (''PaymentValue'', JNum totalPrice),
              (''ModeType'', orElse (getOpt0 (getOpt order ''payment_gateway_names'')) (JStr '''')),
              (''PaymentReference'', orElse (getOpt order ''checkout_token'') (JStr ''''))]])]
     in
     bindE (getStateGSTCode (getOpt shippingAddress ''province'')) (\<lambda>stateGSTCode.
     bindE (if truthy (getOpt order ''name'') then Inr (getOpt order ''name'')
            else bindE (toStr b (getOpt order ''id'')) (\<lambda>t. Inr (JStr (''ORD'' @ t))))
       (\<lambda>orderNumber.
     Inr (JObj [(''Order'', JObj
       [(''Customer'', JObj
          [(''TitleName'', JStr ''''),
           (''FirstName'', orElse (getOpt customer ''first_name'')
                             (orElse (getOpt shippingAddress ''first_name'') (JStr ''Guest''))),
           (''MiddleName'', JStr ''''),
           (''LastName'', orElse (getOpt customer ''last_name'')
                            (orElse (getOpt shippingAddress ''last_name'') (JStr ''''))),
           (''Gender'', JStr ''''),
           (''MobileNumber'', orElse (getOpt shippingAddress ''phone'')
                                (orElse (getOpt customer ''phone'') (JStr ''''))),
           (''EmailID'', orElse (getOpt customer ''email'')
                           (orElse (getOpt order ''email'') (JStr ''''))),
           (''CustomerAddressLine1'', orElse (getOpt billingAddress ''address1'') (JStr '''')),
           (''CustomerAddressLine2'', orElse (getOpt billingAddress ''address2'') (JStr '''')),
           (''CustomerAddressLine3'', JStr ''''),
           (''CustomerCityName'', orElse (getOpt billingAddress ''city'') (JStr '''')),
           (''CustomerStateName'', orElse (getOpt billingAddress ''province'') (JStr '''')),
           (''CustomerStateGSTCode'', stateGSTCode),
           (''Pincode'', orElse (getOpt billingAddress ''zip'') (JStr ''''))]),
        (''Header'', JObj
          [(''OrderDate'', JStr formattedDate),
           (''OrderNumber'', orderNumber),
           (''OrderLocation'', JStr (storeLocation s)),
           (''CustomerCode'', JStr ''''),
           (''DeliveryAddressLine1'', orElse (getOpt shippingAddress ''address1'') (JStr '''')),
           (''DeliveryAddressLine2'', orElse (getOpt shippingAddress ''address2'') (JStr '''')),
           (''DeliveryAddressLine3'', JStr ''''),
           (''DeliveryCityName'', orElse (getOpt shippingAddress ''city'') (JStr '''')),
           (''DeliveryStateName'', orElse (getOpt shippingAddress ''province'') (JStr '''')),
           (''DeliveryStateGSTCode'', stateGSTCode),
           (''DeliveryPincode'', orElse (getOpt shippingAddress ''zip'') (JStr '''')),
           (''TotalOrderValue'', JNum totalPrice),
           (''ExpectedDeliveryDate'', JStr ''''),
           (''OrderRemarks'', orElse (getOpt order ''note'') (JStr '''')),
           (''SourceChannel'', JStr (sourceChannel s))]),
        (''Items'', JObj [(''Item'', JArr items)]),
        (''OtherCharges'', otherCharges),
        (''Payments'', payments)])])))))))))"

text \<open>\<open>parseOrderResponse\<close> and \<open>parseStatusResponse\<close>; \<open>response.Response\<close> throws on a
  response that is null or undefined.\<close>

definition parseOrderResponse :: "jsval \<Rightarrow> error + jsval" where
  "parseOrderResponse response =
     bindE (getProp response ''Response'') (\<lambda>r.
       if truthy r then
         Inr (JObj
           [(''success'', JBool (getOpt r ''Result'' = JStr ''SUCCESS'')),
            (''message'', getOpt r ''StatusMessage''),
            (''data'', orElse (getOpt r ''StatusReference'') (getOpt r ''Data'')),
            (''error'', getOpt r ''FailureReason'')])
       else Inr (JObj [(''success'', JBool False), (''error'', JStr ''Invalid response format'')]))"

definition parseStatusResponse :: "jsval \<Rightarrow> error + jsval" where
  "parseStatusResponse response =
     bindE (getProp response ''Response'') (\<lambda>r.
       if truthy r then
         Inr (JObj
           [(''success'', JBool (getOpt r ''Result'' = JStr ''SUCCESS'')),
            (''data'', getOpt (getOpt r ''Data'') ''OrderStatusUpdate''),
            (''error'', getOpt r ''FailureReason'')])
       else Inr (JObj [(''success'', JBool False), (''error'', JStr ''Invalid response format'')]))"

text \<open>\<open>createSalesOrder\<close>: the transformation comes first, so an order it rejects sends
  nothing. The logged line interpolates \<open>name || order_number\<close>.\<close>

definition createSalesOrder ::
  "env \<Rightarrow> settings \<Rightarrow> builtins \<Rightarrow> jsval \<Rightarrow> world \<Rightarrow> (error + jsval) \<times> world" where
  "createSalesOrder e s b shopifyOrder w =
     (case transformShopifyOrder b s shopifyOrder of
        Inl err \<Rightarrow> (Inl err, w)
      | Inr orderData \<Rightarrow>
          (case toStr b (orElse (getOpt shopifyOrder ''name'') (getOpt shopifyOrder ''order_number'')) of
             Inl err \<Rightarrow> (Inl err, w)
           | Inr line \<Rightarrow>
               (case makeRequest e s CREATE_SALES_ORDER orderData w of
                  (Inl err, w1) \<Rightarrow> (Inl err, w1)
                | (Inr response, w1) \<Rightarrow> (parseOrderResponse response, w1))))"

definition setOrderStatus ::
  "env \<Rightarrow> settings \<Rightarrow> builtins \<Rightarrow> jsval \<Rightarrow> jsval \<Rightarrow> jsval \<Rightarrow> world \<Rightarrow> (error + jsval) \<times> world" where
  "setOrderStatus e s b orderNumber orderDate status w =
     (let statusData = JObj [(''OrderStatusUpdate'', JObj
            [(''VendorOrderDate'', orderDate),
             (''VendorOrderNumber'', orderNumber),
             (''OrderLocation'', JStr (storeLocation s)),
             (''OrderStatus'', status)])]
      in case bindE (toStr b orderNumber) (\<lambda>_. toStr b status) of
           Inl err \<Rightarrow> (Inl err, w)
         | Inr line \<Rightarrow>
             (case makeRequest e s SET_ORDER_STATUS statusData w of
                (Inl err, w1) \<Rightarrow> (Inl err, w1)
              | (Inr response, w1) \<Rightarrow> (parseStatusResponse response, w1)))"

section \<open>CustomerService (customer-service.js)\<close>

definition transformShopifyCustomer :: "builtins \<Rightarrow> jsval \<Rightarrow> error + jsval" where
  "transformShopifyCustomer b customer =
     bindE (getProp customer ''default_address'') (\<lambda>da.
     let address = orElse da (orElse (getOpt0 (getOpt customer ''addresses'')) (JObj []));
         birth = orElse (getOpt customer ''birthday'') (getOpt (getOpt customer ''metafields'') ''dob'');
         blank = (JStr '''', JStr '''', JStr '''')
     in
     bindE (if truthy birth then
              bindE (localDateOf b birth) (\<lambda>r.
                case r of
                  Some (d, m, y) \<Rightarrow>
                    Inr (JNum (Num (of_int d)), JNum (Num (of_int m + 1)), JNum (Num (of_int y)))
                | None \<Rightarrow> Inr blank)
            else Inr blank) (\<lambda>dob.
     Inr (JObj
       [(''firstName'', orElse (getOpt customer ''first_name'') (JStr '''')),
        (''lastName'', orElse (getOpt customer ''last_name'') (JStr '''')),
        (''email'', orElse (getOpt customer ''email'') (JStr '''')),
        (''phone'', orElse (getOpt customer ''phone'') (orElse (getOpt address ''phone'') (JStr ''''))),
        (''address1'', orElse (getOpt address ''address1'') (JStr '''')),
        (''address2'', orElse (getOpt address ''address2'') (JStr '''')),
        (''city'', orElse (getOpt address ''city'') (JStr '''')),
        (''state'', orElse (getOpt address ''province'') (JStr '''')),
        (''pincode'', orElse (getOpt address ''zip'') (JStr '''')),
        (''dobDay'', fst dob),
        (''dobMonth'', fst (snd dob)),
        (''dobYear'', snd (snd dob))])))"

text \<open>\<open>data.a || data.b || ''\<close>\<close>

definition either :: "jsval \<Rightarrow> string \<Rightarrow> string \<Rightarrow> jsval" where
  "either data a c = orElse (getOpt data a) (orElse (getOpt data c) (JStr ''''))"

definition single :: "jsval \<Rightarrow> string \<Rightarrow> jsval" where
  "single data a = orElse (getOpt data a) (JStr '''')"

definition formatCustomerData :: "jsval \<Rightarrow> error + (string \<times> jsval) list" where
  "formatCustomerData data =
     bindE (getProp data ''title'') (\<lambda>title. Inr
       [(''TitleName'', orElse title (JStr '''')),
        (''FirstName'', either data ''firstName'' ''first_name''),
        (''MiddleName'', single data ''middleName''),
        (''LastName'', either data ''lastName'' ''last_name''),
        (''Gender'', single data ''gender''),
        (''MobileNumber'', either data ''phone'' ''mobileNumber''),
        (''EmailID'', either data ''email'' ''emailId''),
        (''CustomerAddressLine1'', either data ''address1'' ''customerAddressLine1''),
        (''CustomerAddressLine2'', either data ''address2'' ''customerAddressLine2''),
        (''CustomerAddressLine3'', either data ''address3'' ''customerAddressLine3''),
        (''CustomerCityName'', either data ''city'' ''customerCityName''),
        (''CustomerStateName'', either data ''state'' ''customerStateName''),
        (''Pincode'', either data ''pincode'' ''zip''),
        (''DeliveryAddressLine1'', single data ''deliveryAddress1''),
        (''DeliveryAddressLine2'', single data ''deliveryAddress2''),
        (''DeliveryAddressLine3'', single data ''deliveryAddress3''),
        (''DeliveryCityName'', single data ''deliveryCity''),
        (''DeliveryStateName'', single data ''deliveryState''),
        (''DeliveryPincode'', single data ''deliveryPincode''),
        (''DOBDay'', single data ''dobDay''),
        (''DOBMonth'', single data ''dobMonth''),
        (''DOBYear'', single data ''dobYear'')])"

definition parseResponse :: "jsval \<Rightarrow> error + jsval" where
  "parseResponse response =
     bindE (getProp response ''Response'') (\<lambda>r.
       if truthy r then
         Inr (JObj
           [(''success'', JBool (getOpt r ''Result'' = JStr ''SUCCESS'')),
            (''customerCode'', getOpt (getOpt r ''Data'') ''CustomerCode''),
            (''error'', getOpt r ''FailureReason'')])
       else Inr (JObj [(''success'', JBool False), (''error'', JStr ''Invalid response format'')]))"

definition addCustomer ::
  "env \<Rightarrow> settings \<Rightarrow> builtins \<Rightarrow> jsval \<Rightarrow> world \<Rightarrow> (error + jsval) \<times> world" where
  "addCustomer e s b customerData w =
     (case bindE (formatCustomerData customerData) (\<lambda>customer.
             bindE (toStr b (orElse (getOpt customerData ''email'') (getOpt customerData ''phone'')))
               (\<lambda>line. Inr customer)) of
        Inl err \<Rightarrow> (Inl err, w)
      | Inr customer \<Rightarrow>
          (case makeRequest e s ADD_CUSTOMER (JObj [(''Customer'', JObj customer)]) w of
             (Inl err, w1) \<Rightarrow> (Inl err, w1)
           | (Inr response, w1) \<Rightarrow> (parseResponse response, w1)))"

text \<open>\<open>customer.CustomerCode = customerCode\<close> adds the key after the formatted ones.\<close>

definition modifyCustomer ::
  "env \<Rightarrow> settings \<Rightarrow> builtins \<Rightarrow> jsval \<Rightarrow> jsval \<Rightarrow> world \<Rightarrow> (error + jsval) \<times> world" where
  "modifyCustomer e s b customerCode customerData w =
     (case bindE (formatCustomerData customerData) (\<lambda>customer.
             bindE (toStr b customerCode)
               (\<lambda>line. Inr (customer @ [(''CustomerCode'', customerCode)]))) of
        Inl err \<Rightarrow> (Inl err, w)
      | Inr customer \<Rightarrow>
          (case makeRequest e s MODIFY_CUSTOMER (JObj [(''Customer'', JObj customer)]) w of
             (Inl err, w1) \<Rightarrow> (Inl err, w1)
           | (Inr response, w1) \<Rightarrow> (parseResponse response, w1)))"

definition syncFromShopify ::
  "env \<Rightarrow> settings \<Rightarrow> builtins \<Rightarrow> jsval \<Rightarrow> jsval \<Rightarrow> world \<Rightarrow> (error + jsval) \<times> world" where
  "syncFromShopify e s b shopifyCustomer existingCode w =
     (case transformShopifyCustomer b shopifyCustomer of
        Inl err \<Rightarrow> (Inl err, w)
      | Inr customerData \<Rightarrow>
          if truthy existingCode then modifyCustomer e s b existingCode customerData w
          else addCustomer e s b customerData w)"

section \<open>InventoryService (inventory-service.js)\<close>

text \<open>\<open>parseFloat(v) || 0\<close>\<close>

definition floatOr0 :: "builtins \<Rightarrow> jsval \<Rightarrow> error + jsval" where
  "floatOr0 b v = bindE (parseFloat b v) (\<lambda>n. Inr (orElse (JNum n) (JNum (Num 0))))"

definition normalizeItem :: "builtins \<Rightarrow> jsval \<Rightarrow> nat \<Rightarrow> error + jsval" where
  "normalizeItem b item index =
     bindE (getProp item ''ProductCode'') (\<lambda>productCode.
     bindE (toStr b (getOpt item ''EANCode'')) (\<lambda>ean.
     bindE (floatOr0 b (getOpt item ''MRP'')) (\<lambda>mrp.
     bindE (floatOr0 b (getOpt item ''Stock'')) (\<lambda>stock.
     bindE (floatOr0 b (getOpt item ''SalesPrice'')) (\<lambda>salesPrice.
     bindE (floatOr0 b (getOpt item ''TaxRate'')) (\<lambda>taxRate.
     bindE (floatOr0 b (getOpt item ''PerUnitSalesPrice'')) (\<lambda>perUnitPrice.
     Inr (JObj
       [(''productCode'', productCode),
        (''eanCode'', JStr ean),
        (''itemCode'', getOpt item ''ItemCode''),
        (''itemName'', getOpt item ''ItemName''),
        (''mrp'', mrp),
        (''stock'', stock),
        (''salesPrice'', salesPrice),
        (''taxRate'', taxRate),
        (''lastModified'', getOpt item ''LastModifiedOn''),
        (''saleUnit'', getOpt item ''SaleUnit''),
        (''perUnitPrice'', perUnitPrice)]))))))))"

definition normalizeItems :: "builtins \<Rightarrow> jsval \<Rightarrow> error + jsval list" where
  "normalizeItems b items =
     (if \<not> truthy items then Inr []
      else (let itemArray = (case items of JArr xs \<Rightarrow> xs | _ \<Rightarrow> [items])
            in mapE (normalizeItem b) 0 itemArray))"

text \<open>One entry of \<open>inventoryByLocation\<close>: \<open>{location: loc.Location, items:
  this.normalizeItems(loc.Items?.Item)}\<close>, kept as a pair until the result is assembled.\<close>

definition normalizeLocation :: "builtins \<Rightarrow> jsval \<Rightarrow> nat \<Rightarrow> error + (jsval \<times> jsval list)" where
  "normalizeLocation b loc index =
     bindE (getProp loc ''Location'') (\<lambda>l.
     bindE (normalizeItems b (getOpt (getOpt loc ''Items'') ''Item'')) (\<lambda>its.
     Inr (l, its)))"

definition locationEntry :: "jsval \<times> jsval list \<Rightarrow> jsval" where
  "locationEntry p = JObj [(''location'', fst p), (''items'', JArr (snd p))]"

definition inventoryResult :: "bool \<Rightarrow> (jsval \<times> jsval list) list \<Rightarrow> jsval \<Rightarrow> jsval" where
  "inventoryResult ok locs err =
     JObj [(''success'', JBool ok),
           (''inventoryByLocation'', JArr (map locationEntry locs)),
           (''totalItems'', JNum (Num (of_nat (sum_list (map (\<lambda>p. length (snd p)) locs))))),
           (''error'', err)]"

definition parseInventoryResponse :: "builtins \<Rightarrow> jsval \<Rightarrow> error + jsval" where
  "parseInventoryResponse b response =
     bindE (getProp response ''Response'') (\<lambda>r.
       if truthy r then
         (if getOpt r ''Result'' = JStr ''SUCCESS'' then
            (let inventoryData = getOpt (getOpt r ''Data'') ''Inventory'' in
             bindE (case inventoryData of
                      JArr locs \<Rightarrow> mapE (normalizeLocation b) 0 locs
                    | _ \<Rightarrow> if truthy inventoryData
                           then bindE (normalizeLocation b inventoryData 0) (\<lambda>p. Inr [p])
                           else Inr [])
               (\<lambda>locs. Inr (inventoryResult True locs JNull)))
          else Inr (inventoryResult False []
                      (orElse (getOpt r ''FailureReason'') (JStr ''Unknown error''))))
       else Inr (inventoryResult False [] JNull))"

section \<open>WebhookHandlers (webhook-handlers.js)\<close>

text \<open>The value a handler returns from its \<open>catch\<close>.\<close>

definition caught :: "jsval \<Rightarrow> error \<Rightarrow> jsval" where
  "caught order err =
     JObj [(''success'', JBool False),
           (''orderId'', getOpt order ''id''),
           (''error'', JStr (message err))]"

text \<open>
  \<open>handleOrderCreate\<close>. The first log line, outside the \<open>try\<close>, reads \<open>order.name\<close>: a
  throw there escapes the handler. Whatever the customer synchronisation returns or
  throws is dropped; only the requests it sent and the token it fetched remain. The
  success branch logs \<open>order.name\<close> once more, which the first line has already converted.
\<close>

definition handleOrderCreate ::
  "env \<Rightarrow> settings \<Rightarrow> builtins \<Rightarrow> jsval \<Rightarrow> world \<Rightarrow> (error + jsval) \<times> world" where
  "handleOrderCreate e s b order w =
     (case bindE (getProp order ''name'') (toStr b) of
        Inl err \<Rightarrow> (Inl err, w)
      | Inr line \<Rightarrow>
          (let w1 = (if truthy (getOpt order ''customer'')
                     then snd (syncFromShopify e s b (getOpt order ''customer'') JNull w)
                     else w)
           in case createSalesOrder e s b order w1 of
                (Inl err, w2) \<Rightarrow> (Inr (caught order err), w2)
              | (Inr result, w2) \<Rightarrow>
                  if truthy (getOpt result ''success'') then
                    (Inr (JObj [(''success'', JBool True),
                                (''orderId'', getOpt order ''id''),
                                (''eshopaidRef'', getOpt (getOpt result ''data'') ''TargetRefID'')]),
                     w2)
                  else
                    (case toStr b (getOpt result ''error'') of
                       Inl err \<Rightarrow> (Inr (caught order err), w2)
                     | Inr line2 \<Rightarrow>
                         (Inr (JObj [(''success'', JBool False),
                                     (''orderId'', getOpt order ''id''),
                                     (''error'', getOpt result ''error'')]),
                          w2))))"

text \<open>The status decision at the head of \<open>handleOrderUpdate\<close>; \<open>null\<close> when no branch applies.\<close>

definition resolveStatus :: "jsval \<Rightarrow> jsval" where
  "resolveStatus order =
     (if truthy (getOpt order ''cancelled_at'') then JStr ''CANCELLED''
      else if getOpt order ''fulfillment_status'' = JStr ''fulfilled'' then JStr ''DELIVERED''
      else if getOpt order ''fulfillment_status'' = JStr ''partial'' then JStr ''PARTIALLY_DELIVERED''
      else if getOpt order ''financial_status'' = JStr ''paid'' then JStr ''PAID''
      else JNull)"

definition handleOrderUpdate ::
  "env \<Rightarrow> settings \<Rightarrow> builtins \<Rightarrow> jsval \<Rightarrow> world \<Rightarrow> (error + jsval) \<times> world" where
  "handleOrderUpdate e s b order w =
     (case bindE (getProp order ''name'') (toStr b) of
        Inl err \<Rightarrow> (Inl err, w)
      | Inr line \<Rightarrow>
          (let status = resolveStatus order in
           if truthy status then
             (case toISOString b (getOpt order ''created_at'') of
                Inl err \<Rightarrow> (Inr (caught order err), w)
              | Inr isoText \<Rightarrow>
                  (case setOrderStatus e s b (getOpt order ''name'') (JStr (take 10 isoText)) status w of
                     (Inl err, w1) \<Rightarrow> (Inr (caught order err), w1)
                   | (Inr result, w1) \<Rightarrow>
                       (Inr (JObj [(''success'', getOpt result ''success''),
                                   (''orderId'', getOpt order ''id''),
                                   (''status'', status),
                                   (''error'', getOpt result ''error'')]),
                        w1)))
           else (Inr (JObj [(''success'', JBool True),
                            (''orderId'', getOpt order ''id''),
                            (''status'', JStr ''NO_UPDATE_NEEDED'')]),
                 w)))"

section \<open>Invariants and concrete inputs\<close>

text \<open>The cache is either empty, or holds a truthy token together with an expiry.\<close>

definition cacheInv :: "world \<Rightarrow> bool" where
  "cacheInv w = ((token w = JNull \<and> tokenExpiry w = None) \<or> (truthy (token w) \<and> tokenExpiry w \<noteq> None))"

text \<open>\<open>token == null\<close> exactly when \<open>tokenExpiry == null\<close>.\<close>

definition bothOrNeither :: "world \<Rightarrow> bool" where
  "bothOrNeither w = (nullish (token w) = (tokenExpiry w = None))"

definition settings0 :: settings where
  "settings0 = \<lparr>serverUrl = ''http://erp'', username = ''u'', password = ''p'',
                storeLocation = ''HO'', sourceChannel = ''Shopify''\<rparr>"

definition tokenBody :: jsval where
  "tokenBody = JObj [(''Response'', JObj [(''Result'', JStr ''SUCCESS''), (''Access_Token'', JStr ''tok1'')])]"

definition envOnce :: env where
  "envOnce = \<lparr>net = (\<lambda>n r. if n = 0 then Data tokenBody else Fault (AxiosError ''Network Error'')),
              clock = (\<lambda>n. 1000)\<rparr>"

definition worldCached :: world where
  "worldCached = \<lparr>token = JStr ''tok1'', tokenExpiry = Some 1801000, sent = [tokenRequest settings0]\<rparr>"

definition worldStale :: world where
  "worldStale = \<lparr>token = JStr ''tok0'', tokenExpiry = Some 500, sent = [tokenRequest settings0]\<rparr>"

text \<open>The items of a transformed order and their line numbers.\<close>

definition orderItems :: "jsval \<Rightarrow> jsval list" where
  "orderItems payload =
     (case getOpt (getOpt (getOpt payload ''Order'') ''Items'') ''Item'' of
        JArr its \<Rightarrow> its | _ \<Rightarrow> [])"

definition lineNumbers :: "jsval \<Rightarrow> jsval list" where
  "lineNumbers payload = map (\<lambda>it. getOpt it ''LineNumber'') (orderItems payload)"

text \<open>
  What the order transformation needs of its input. A value is convertible when the
  conversion to a string does not throw: every value that is not an array or an object
  is, and an object parsed from JSON is unless it carries a \<open>toString\<close> of its own. The
  order must be neither null nor undefined; \<open>created_at\<close> must be convertible and give a
  valid date; \<open>line_items\<close> must be an array whose entries are neither null nor undefined,
  with a convertible \<open>price\<close> and \<open>total_discount\<close> and, where \<open>sku\<close> is falsy and
  \<open>variant_id\<close> is present, a convertible \<open>variant_id\<close>; \<open>shipping_lines\<close>, if present, must
  be an array whose entries are neither null nor undefined and have a convertible
  \<open>price\<close>; \<open>gateway\<close> and the province of the delivery address, if present, must be
  strings; \<open>total_price\<close> must be convertible; and \<open>id\<close> must be convertible when the order
  has no \<open>name\<close>. The customer, both addresses, the note and the e-mail are not mentioned:
  their absence is filled with defaults.
\<close>

definition isString :: "jsval \<Rightarrow> bool" where
  "isString v = (case v of JStr x \<Rightarrow> True | _ \<Rightarrow> False)"

definition convertible :: "builtins \<Rightarrow> jsval \<Rightarrow> bool" where
  "convertible b v = (\<not> isl (toStr b v))"

definition validDate :: "builtins \<Rightarrow> jsval \<Rightarrow> bool" where
  "validDate b v =
     (case toPrimitive b v of
        Inl e \<Rightarrow> False
      | Inr p \<Rightarrow> p \<noteq> JUndefined \<and> isoString b p \<noteq> None)"

definition itemOk :: "builtins \<Rightarrow> jsval \<Rightarrow> bool" where
  "itemOk b item =
     (\<not> nullish item \<and>
      (truthy (getOpt item ''sku'') \<or> nullish (getOpt item ''variant_id'') \<or>
       convertible b (getOpt item ''variant_id'')) \<and>
      convertible b (getOpt item ''price'') \<and>
      convertible b (getOpt item ''total_discount''))"

definition lineOk :: "builtins \<Rightarrow> jsval \<Rightarrow> bool" where
  "lineOk b line = (\<not> nullish line \<and> convertible b (getOpt line ''price''))"

definition transformable :: "builtins \<Rightarrow> jsval \<Rightarrow> bool" where
  "transformable b order =
     (\<not> nullish order \<and>
      validDate b (getOpt order ''created_at'') \<and>
      (case getOpt order ''line_items'' of JArr xs \<Rightarrow> list_all (itemOk b) xs | _ \<Rightarrow> False) \<and>
      (nullish (getOpt order ''shipping_lines'') \<or>
       (case getOpt order ''shipping_lines'' of
          JArr ls \<Rightarrow> list_all (lineOk b) ls | _ \<Rightarrow> False)) \<and>
      (nullish (getOpt order ''gateway'') \<or> isString (getOpt order ''gateway'')) \<and>
      convertible b (getOpt order ''total_price'') \<and>
      (let province = getOpt (orElse (getOpt order ''shipping_address'')
                         (orElse (getOpt order ''billing_address'') (JObj []))) ''province''
       in nullish province \<or> isString province) \<and>
      (truthy (getOpt order ''name'') \<or> convertible b (getOpt order ''id'')))"

text \<open>The state in which \<open>handleOrderCreate\<close> reaches the order creation: after the
  customer synchronisation when the order has a customer.\<close>

definition afterCustomerStage :: "env \<Rightarrow> settings \<Rightarrow> builtins \<Rightarrow> jsval \<Rightarrow> world \<Rightarrow> world" where
  "afterCustomerStage e s b order w =
     (if truthy (getOpt order ''customer'')
      then snd (syncFromShopify e s b (getOpt order ''customer'') JNull w)
      else w)"

text \<open>Concrete inputs: the host functions at the values the examples use (an object
  with a \<open>toString\<close> of its own cannot be converted), a storefront order whose item
  identifiers are neither contiguous nor ordered, the same order with one field removed,
  and the same order with an object for its total price.\<close>

definition builtins0 :: builtins where
  "builtins0 =
     \<lparr>floatOfString = (\<lambda>t. if t = ''10.00'' then Num 10 else if t = ''0'' then Num 0 else NaN),
      addDouble = (\<lambda>x y. case x of
                            Num p \<Rightarrow> (case y of Num q \<Rightarrow> Num (p + q) | _ \<Rightarrow> NaN)
                          | _ \<Rightarrow> NaN),
      numberToString = (\<lambda>n. if n = Num 0 then ''0'' else if n = Num 42 then ''42''
                             else if n = Num 1001 then ''1001'' else ''NaN''),
      objectToString = (\<lambda>v. case v of
                            JObj kvs \<Rightarrow>
                              (if map_of kvs ''toString'' = None then Inr ''[object Object]''
                               else Inl (TypeError ''Cannot convert object to primitive value''))
                          | _ \<Rightarrow> Inr ''''),
      isoString = (\<lambda>v. if v = JStr ''2024-01-15T10:30:00Z''
                         then Some ''2024-01-15T10:30:00.000Z'' else None),
      localDate = (\<lambda>v. None)\<rparr>"

definition order0Fields :: "(string \<times> jsval) list" where
  "order0Fields =
     [(''id'', JNum (Num 1001)),
      (''name'', JStr ''#1001''),
      (''created_at'', JStr ''2024-01-15T10:30:00Z''),
      (''customer'', JObj [(''first_name'', JStr ''Asha''), (''email'', JStr ''asha@example.com'')]),
      (''shipping_address'', JObj [(''address1'', JStr ''12 MG Road''), (''province'', JStr ''Delhi'')]),
      (''line_items'', JArr
         [JObj [(''id'', JNum (Num 907)), (''sku'', JStr ''SKU-A''), (''quantity'', JNum (Num 2)),
                (''price'', JStr ''10.00''), (''name'', JStr ''Shirt'')],
          JObj [(''id'', JNum (Num 12)), (''variant_id'', JNum (Num 42)), (''quantity'', JNum (Num 1)),
                (''price'', JStr ''10.00''), (''name'', JStr ''Cap'')],
          JObj [(''id'', JNum (Num 450)), (''sku'', JStr ''SKU-C''), (''quantity'', JNum (Num 1)),
                (''price'', JStr ''10.00''), (''name'', JStr ''Belt'')]]),
      (''total_price'', JStr ''10.00''),
      (''gateway'', JStr ''COD'')]"

definition order0 :: jsval where
  "order0 = JObj order0Fields"

definition without :: "string \<Rightarrow> (string \<times> jsval) list \<Rightarrow> (string \<times> jsval) list" where
  "without k kvs = filter (\<lambda>p. fst p \<noteq> k) kvs"

definition orderNoItems :: jsval where
  "orderNoItems = JObj (without ''line_items'' order0Fields)"

definition orderNoDate :: jsval where
  "orderNoDate = JObj (without ''created_at'' order0Fields)"

definition orderNoDestination :: jsval where
  "orderNoDestination = JObj (without ''shipping_address'' order0Fields)"

definition orderBadPrice :: jsval where
  "orderBadPrice =
     JObj ((''total_price'', JObj [(''toString'', JNum (Num 1))]) # without ''total_price'' order0Fields)"

text \<open>
  What the inventory normalisation needs of a location: it is neither null nor
  undefined, and each of its items is neither null nor undefined and has an \<open>EANCode\<close>,
  \<open>MRP\<close>, \<open>Stock\<close>, \<open>SalesPrice\<close>, \<open>TaxRate\<close> and \<open>PerUnitSalesPrice\<close> that can be
  converted to a string. The items of a location are those of its \<open>Items.Item\<close>: none
  when it is absent or falsy, its elements when it is an array, itself otherwise.
\<close>

definition itemsOf :: "jsval \<Rightarrow> jsval list" where
  "itemsOf items =
     (if \<not> truthy items then [] else (case items of JArr xs \<Rightarrow> xs | _ \<Rightarrow> [items]))"

definition itemFine :: "builtins \<Rightarrow> jsval \<Rightarrow> bool" where
  "itemFine b item =
     (\<not> nullish item \<and>
      convertible b (getOpt item ''EANCode'') \<and>
      convertible b (getOpt item ''MRP'') \<and>
      convertible b (getOpt item ''Stock'') \<and>
      convertible b (getOpt item ''SalesPrice'') \<and>
      convertible b (getOpt item ''TaxRate'') \<and>
      convertible b (getOpt item ''PerUnitSalesPrice''))"

definition locationFine :: "builtins \<Rightarrow> jsval \<Rightarrow> bool" where
  "locationFine b loc =
     (\<not> nullish loc \<and> list_all (itemFine b) (itemsOf (getOpt (getOpt loc ''Items'') ''Item'')))"

definition isArray :: "jsval \<Rightarrow> bool" where
  "isArray v = (case v of JArr xs \<Rightarrow> True | _ \<Rightarrow> False)"

text \<open>
  The normalised form, stated on the host functions: \<open>out\<close> is \<open>parseFloat(src) || 0\<close>; a
  normalised item carries the eleven fields of its source item; a normalised location
  carries the \<open>Location\<close> of its source and one normalised item for each of its items, in
  order; and the result of a successful parse carries the locations, the total number
  of their items and no error.
\<close>

definition numericField :: "builtins \<Rightarrow> jsval \<Rightarrow> jsval \<Rightarrow> bool" where
  "numericField b src out =
     (case toStr b src of
        Inl e \<Rightarrow> False
      | Inr t \<Rightarrow> out = orElse (JNum (floatOfString b t)) (JNum (Num 0)))"

definition itemMatches :: "builtins \<Rightarrow> jsval \<Rightarrow> jsval \<Rightarrow> bool" where
  "itemMatches b x it =
     (getOpt it ''productCode'' = getOpt x ''ProductCode'' \<and>
      (case toStr b (getOpt x ''EANCode'') of
         Inl e \<Rightarrow> False
       | Inr t \<Rightarrow> getOpt it ''eanCode'' = JStr t) \<and>
      getOpt it ''itemCode'' = getOpt x ''ItemCode'' \<and>
      getOpt it ''itemName'' = getOpt x ''ItemName'' \<and>
      numericField b (getOpt x ''MRP'') (getOpt it ''mrp'') \<and>
      numericField b (getOpt x ''Stock'') (getOpt it ''stock'') \<and>
      numericField b (getOpt x ''SalesPrice'') (getOpt it ''salesPrice'') \<and>
      numericField b (getOpt x ''TaxRate'') (getOpt it ''taxRate'') \<and>
      getOpt it ''lastModified'' = getOpt x ''LastModifiedOn'' \<and>
      getOpt it ''saleUnit'' = getOpt x ''SaleUnit'' \<and>
      numericField b (getOpt x ''PerUnitSalesPrice'') (getOpt it ''perUnitPrice''))"

definition locationMatches :: "builtins \<Rightarrow> jsval \<Rightarrow> jsval \<times> jsval list \<Rightarrow> bool" where
  "locationMatches b loc p =
     (fst p = getOpt loc ''Location'' \<and>
      list_all2 (itemMatches b) (itemsOf (getOpt (getOpt loc ''Items'') ''Item'')) (snd p))"

definition isSnapshot :: "jsval \<Rightarrow> (jsval \<times> jsval list) list \<Rightarrow> bool" where
  "isSnapshot res ps =
     (getOpt res ''success'' = JBool True \<and>
      getOpt res ''inventoryByLocation'' =
        JArr (map (\<lambda>p. JObj [(''location'', fst p), (''items'', JArr (snd p))]) ps) \<and>
      getOpt res ''totalItems'' = JNum (Num (of_nat (sum_list (map (\<lambda>p. length (snd p)) ps)))) \<and>
      getOpt res ''error'' = JNull)"

text \<open>Two successful inventory responses: one location as a single object, and two
  locations in an array, the first without \<open>Items\<close>.\<close>

definition inventoryOk :: jsval where
  "inventoryOk = JObj [(''Response'', JObj
     [(''Result'', JStr ''SUCCESS''),
      (''Data'', JObj [(''Inventory'', JObj
         [(''Location'', JStr ''HO''),
          (''Items'', JObj [(''Item'', JObj
             [(''ProductCode'', JStr ''P1''), (''EANCode'', JStr ''890'') , (''Stock'', JStr ''10.00'')])])])])])]"

definition inventoryTwo :: jsval where
  "inventoryTwo = JObj [(''Response'', JObj
     [(''Result'', JStr ''SUCCESS''),
      (''Data'', JObj [(''Inventory'', JArr
         [JObj [(''Location'', JStr ''HO'')],
          JObj [(''Location'', JStr ''WH2''),
                (''Items'', JObj [(''Item'', JArr
                   [JObj [(''ProductCode'', JStr ''P1''), (''EANCode'', JStr ''890'')],
                    JObj [(''ProductCode'', JStr ''P2''), (''EANCode'', JStr ''891'')]])])]])])])]"

text \<open>The request \<open>makeRequest\<close> sends for a method, a token and a body.\<close>

definition gatewayRequest :: "settings \<Rightarrow> string \<Rightarrow> jsval \<Rightarrow> jsval \<Rightarrow> request" where
  "gatewayRequest s method tok data =
     \<lparr>url = serverUrl s @ processDataEndpoint,
      body = data,
      headers = [(''SERVICE_METHODNAME'', JStr method),
                 (''AUTHORIZATION'', tok),
                 (''Content-Type'', JStr ''application/json'')]\<rparr>"

text \<open>
  A server that issues the token \<open>tok1\<close>, accepts orders and status updates, and answers
  the customer call as its parameter says; a cancelled and fulfilled order, and an order
  on which no status applies.
\<close>

definition methodOf :: "request \<Rightarrow> jsval" where
  "methodOf r = (case map_of (headers r) ''SERVICE_METHODNAME'' of Some m \<Rightarrow> m | None \<Rightarrow> JUndefined)"

definition orderCreated :: jsval where
  "orderCreated = JObj [(''Response'', JObj
     [(''Result'', JStr ''SUCCESS''),
      (''StatusMessage'', JStr ''Order created''),
      (''Data'', JObj [(''TargetRefID'', JStr ''SO-77'')])])]"

definition statusUpdated :: jsval where
  "statusUpdated = JObj [(''Response'', JObj [(''Result'', JStr ''SUCCESS'')])]"

definition customerFault :: reply where
  "customerFault = Fault (AxiosError ''Request failed with status code 500'')"

definition customerRejected :: reply where
  "customerRejected = Data (JObj [(''Response'', JObj
     [(''Result'', JStr ''FAILURE''), (''FailureReason'', JStr ''Duplicate customer'')])])"

definition envShop :: "reply \<Rightarrow> env" where
  "envShop customerReply =
     \<lparr>net = (\<lambda>n r.
        if methodOf r = JStr GET_TOKEN then Data tokenBody
        else if methodOf r = JStr ADD_CUSTOMER then customerReply
        else if methodOf r = JStr CREATE_SALES_ORDER then Data orderCreated
        else if methodOf r = JStr SET_ORDER_STATUS then Data statusUpdated
        else Fault (AxiosError ''Request failed with status code 404'')),
      clock = (\<lambda>n. 1000 + 10 * int n)\<rparr>"

definition orderCancelled :: jsval where
  "orderCancelled = JObj
     [(''id'', JNum (Num 1001)),
      (''name'', JStr ''#1001''),
      (''created_at'', JStr ''2024-01-15T10:30:00Z''),
      (''cancelled_at'', JStr ''2024-01-16T09:00:00Z''),
      (''fulfillment_status'', JStr ''fulfilled''),
      (''financial_status'', JStr ''paid'')]"

definition orderPending :: jsval where
  "orderPending = JObj
     [(''id'', JNum (Num 1002)),
      (''name'', JStr ''#1002''),
      (''created_at'', JStr ''2024-01-15T10:30:00Z''),
      (''cancelled_at'', JNull),
      (''fulfillment_status'', JNull),
      (''financial_status'', JStr ''pending'')]"

section \<open>TokenManager: the outcomes of an acquisition\<close>

lemma truthy_not_nullish: "truthy v \<Longrightarrow> \<not> nullish v"
  by (cases v) auto

lemma generateToken_fault:
  "net e (length (sent w)) (tokenRequest s) = Fault err \<Longrightarrow>
   generateToken e s w = (Inl err, w\<lparr>sent := sent w @ [tokenRequest s]\<rparr>)"
  by (simp add: generateToken_def Let_def)

lemma generateToken_malformed:
  "net e (length (sent w)) (tokenRequest s) = Data d \<Longrightarrow> extractAccessToken d = Inl err \<Longrightarrow>
   generateToken e s w = (Inl err, w\<lparr>sent := sent w @ [tokenRequest s]\<rparr>)"
  by (simp add: generateToken_def Let_def)

lemma generateToken_missing:
  "net e (length (sent w)) (tokenRequest s) = Data d \<Longrightarrow> extractAccessToken d = Inr tok \<Longrightarrow>
   \<not> truthy tok \<Longrightarrow>
   generateToken e s w =
     (Inl (Error ''Failed to extract token from response''),
      w\<lparr>sent := sent w @ [tokenRequest s]\<rparr>)"
  by (simp add: generateToken_def Let_def)

lemma generateToken_success:
  "net e (length (sent w)) (tokenRequest s) = Data d \<Longrightarrow> extractAccessToken d = Inr tok \<Longrightarrow>
   truthy tok \<Longrightarrow>
   generateToken e s w =
     (Inr tok,
      w\<lparr>sent := sent w @ [tokenRequest s], token := tok,
        tokenExpiry := Some (clock e (Suc (length (sent w))) + tokenLifetimeMinutes * 60 * 1000)\<rparr>)"
  by (simp add: generateToken_def Let_def now_def)

lemma generateToken_cases:
  "(\<exists>err. generateToken e s w = (Inl err, w\<lparr>sent := sent w @ [tokenRequest s]\<rparr>)) \<or>
   (\<exists>tok. truthy tok \<and> generateToken e s w =
      (Inr tok,
       w\<lparr>sent := sent w @ [tokenRequest s], token := tok,
         tokenExpiry := Some (clock e (Suc (length (sent w))) + tokenLifetimeMinutes * 60 * 1000)\<rparr>))"
proof (cases "net e (length (sent w)) (tokenRequest s)")
  case (Fault err)
  then show ?thesis using generateToken_fault by blast
next
  case (Data d)
  show ?thesis
  proof (cases "extractAccessToken d")
    case (Inl err)
    with Data show ?thesis using generateToken_malformed by blast
  next
    case (Inr tok)
    with Data show ?thesis
      using generateToken_missing generateToken_success by (cases "truthy tok") blast+
  qed
qed

lemma cacheInv_generateToken: "cacheInv w \<Longrightarrow> cacheInv (snd (generateToken e s w))"
  using generateToken_cases[of e s w] by (auto simp: cacheInv_def)

lemma cacheInv_getToken: "cacheInv w \<Longrightarrow> cacheInv (snd (getToken e s w))"
  by (simp add: getToken_def cacheInv_generateToken)

lemma cacheInv_constructor: "cacheInv constructor"
  by (simp add: cacheInv_def constructor_def)

lemma cacheInv_clearToken: "cacheInv (clearToken w)"
  by (simp add: cacheInv_def clearToken_def)

lemma cacheInv_both: "cacheInv w \<Longrightarrow> bothOrNeither w"
  by (auto simp: cacheInv_def bothOrNeither_def truthy_not_nullish)

section \<open>TokenManager: properties\<close>

text \<open>
  C10. The token and its expiry are both null or both set: this holds after the
  constructor and after \<open>clearToken\<close>, and \<open>generateToken\<close> (so also \<open>refreshToken\<close>) and
  \<open>getToken\<close> keep it, whether the acquisition succeeds or fails.
\<close>

theorem bothOrNeither_preserved:
  "bothOrNeither constructor \<and>
   (bothOrNeither w \<longrightarrow> bothOrNeither (snd (generateToken e s w))) \<and>
   (bothOrNeither w \<longrightarrow> bothOrNeither (snd (refreshToken e s w))) \<and>
   (bothOrNeither w \<longrightarrow> bothOrNeither (snd (getToken e s w))) \<and>
   bothOrNeither (clearToken w)"
proof -
  have g: "bothOrNeither w \<Longrightarrow> bothOrNeither (snd (generateToken e s w))"
    using generateToken_cases[of e s w] by (auto simp: bothOrNeither_def truthy_not_nullish)
  have c: "bothOrNeither constructor" by (simp add: bothOrNeither_def constructor_def)
  have k: "bothOrNeither (clearToken w)" by (simp add: bothOrNeither_def clearToken_def)
  from g c k show ?thesis by (simp add: refreshToken_def getToken_def)
qed

theorem bothOrNeither_preserved_witness:
  "bothOrNeither constructor \<and>
   bothOrNeither (snd (generateToken envOnce settings0 constructor)) \<and>
   token (snd (generateToken envOnce settings0 constructor)) = JStr ''tok1'' \<and>
   bothOrNeither (snd (getToken envOnce settings0 (snd (generateToken envOnce settings0 constructor)))) \<and>
   bothOrNeither (clearToken (snd (generateToken envOnce settings0 constructor)))"
proof -
  have t: "token (snd (generateToken envOnce settings0 constructor)) = JStr ''tok1''"
    by (simp add: generateToken_def constructor_def envOnce_def tokenBody_def tokenRequest_def
        extractAccessToken_def bindE_def Let_def)
  have c: "bothOrNeither constructor"
    using bothOrNeither_preserved[of constructor envOnce settings0] by simp
  have g: "bothOrNeither (snd (generateToken envOnce settings0 constructor))"
    using bothOrNeither_preserved[of constructor envOnce settings0] by simp
  have g2: "bothOrNeither (snd (getToken envOnce settings0 (snd (generateToken envOnce settings0 constructor))))"
    using g bothOrNeither_preserved[of "snd (generateToken envOnce settings0 constructor)" envOnce settings0] by simp
  have k: "bothOrNeither (clearToken (snd (generateToken envOnce settings0 constructor)))"
    using bothOrNeither_preserved[of "snd (generateToken envOnce settings0 constructor)" envOnce settings0] by simp
  from t c g g2 k show ?thesis by simp
qed

text \<open>
  C2. In every state of the cache (empty, or a truthy token with an expiry, which is what
  the constructor and every method leave behind, see \<open>cacheInv_generateToken\<close>,
  \<open>cacheInv_getToken\<close>, \<open>cacheInv_constructor\<close> and \<open>cacheInv_clearToken\<close>) and at every time
  \<open>t\<close> of the epoch clock, \<open>isTokenValid\<close> holds exactly when the cache is non-empty and
  \<open>t < expiry - buffer\<close>; one millisecond before \<open>expiry - buffer\<close> it is true, at
  \<open>expiry - buffer\<close> it is false. The check is a function of the two fields and the time
  alone: it takes no network and returns no state.
\<close>

theorem isTokenValid_window:
  assumes "cacheInv w"
  shows "(\<forall>t\<ge>0. isTokenValid w t =
            (token w \<noteq> JNull \<and>
             (\<exists>x. tokenExpiry w = Some x \<and> t < x - tokenRefreshBuffer * 60 * 1000))) \<and>
         (\<forall>x. token w \<noteq> JNull \<and> tokenExpiry w = Some x \<and> 0 < x - tokenRefreshBuffer * 60 * 1000 \<longrightarrow>
            isTokenValid w (x - tokenRefreshBuffer * 60 * 1000 - 1) \<and>
            \<not> isTokenValid w (x - tokenRefreshBuffer * 60 * 1000))"
  using assms
  by (auto simp: cacheInv_def isTokenValid_def Let_def tokenRefreshBuffer_def split: option.splits)


theorem isTokenValid_window_witness:
  "cacheInv worldCached \<and>
   isTokenValid worldCached 1000 \<and>
   isTokenValid worldCached 1500999 \<and> \<not> isTokenValid worldCached 1501000"
proof -
  have h: "cacheInv worldCached"
    by (simp add: cacheInv_def worldCached_def)
  have e: "tokenExpiry worldCached = Some 1801000" "token worldCached \<noteq> JNull"
    by (simp_all add: worldCached_def)
  from isTokenValid_window[OF h] e show ?thesis
    using h by (simp add: tokenRefreshBuffer_def)
qed

text \<open>
  C6. While the credential is valid, \<open>getToken\<close> returns the cached token and leaves the
  state, the list of requests sent included, as it was. Otherwise it sends exactly one
  token request; when the reply carries a token, the token and the expiry are replaced
  and the new token is returned.
\<close>

theorem getToken_cached_or_acquired:
  "(isTokenValid w (now e w) \<longrightarrow> getToken e s w = (Inr (token w), w)) \<and>
   (\<not> isTokenValid w (now e w) \<longrightarrow>
      sent (snd (getToken e s w)) = sent w @ [tokenRequest s] \<and>
      (\<forall>d tok. net e (length (sent w)) (tokenRequest s) = Data d \<and>
          extractAccessToken d = Inr tok \<and> truthy tok \<longrightarrow>
          getToken e s w =
            (Inr tok,
             w\<lparr>sent := sent w @ [tokenRequest s], token := tok,
               tokenExpiry := Some (clock e (Suc (length (sent w))) + tokenLifetimeMinutes * 60 * 1000)\<rparr>)))"
proof -
  have "sent (snd (generateToken e s w)) = sent w @ [tokenRequest s]"
    using generateToken_cases[of e s w] by auto
  then show ?thesis
    by (auto simp: getToken_def generateToken_success)
qed

theorem getToken_cached_or_acquired_witness:
  "\<not> isTokenValid constructor (now envOnce constructor) \<and>
   getToken envOnce settings0 constructor = (Inr (JStr ''tok1''), worldCached) \<and>
   isTokenValid worldCached (now envOnce worldCached) \<and>
   getToken envOnce settings0 worldCached = (Inr (JStr ''tok1''), worldCached)"
proof -
  have a: "\<not> isTokenValid constructor (now envOnce constructor)"
    by (simp add: isTokenValid_def constructor_def)
  have b: "isTokenValid worldCached (now envOnce worldCached)"
    by (simp add: isTokenValid_def worldCached_def now_def envOnce_def tokenRefreshBuffer_def)
  have n: "net envOnce (length (sent constructor)) (tokenRequest settings0) = Data tokenBody"
    by (simp add: envOnce_def constructor_def)
  have x: "extractAccessToken tokenBody = Inr (JStr ''tok1'')" "truthy (JStr ''tok1'')"
    by (simp_all add: extractAccessToken_def tokenBody_def bindE_def)
  have c: "getToken envOnce settings0 constructor = (Inr (JStr ''tok1''), worldCached)"
    using getToken_cached_or_acquired[of constructor envOnce settings0] a n x
    by (simp add: constructor_def worldCached_def envOnce_def tokenLifetimeMinutes_def)
  have d: "getToken envOnce settings0 worldCached = (Inr (JStr ''tok1''), worldCached)"
    using getToken_cached_or_acquired[of worldCached envOnce settings0] b
    by (simp add: worldCached_def)
  from a b c d show ?thesis by simp
qed

text \<open>
  C3, as stated, fails: a failed \<open>generateToken\<close> on a cache that holds a valid token
  leaves that token and its expiry in place, and the next \<open>getToken\<close> returns it without
  any acquisition.
\<close>

theorem generateToken_failure_empties_cache_counterexample:
  "fst (generateToken envOnce settings0 worldCached) = Inl (AxiosError ''Network Error'') \<and>
   token (snd (generateToken envOnce settings0 worldCached)) = JStr ''tok1'' \<and>
   tokenExpiry (snd (generateToken envOnce settings0 worldCached)) = Some 1801000 \<and>
   getToken envOnce settings0 (snd (generateToken envOnce settings0 worldCached)) =
     (Inr (JStr ''tok1''), snd (generateToken envOnce settings0 worldCached))"
  by (simp add: generateToken_def getToken_def isTokenValid_def now_def worldCached_def envOnce_def
      Let_def tokenRefreshBuffer_def)

text \<open>
  C3, amended. A transport fault, a response that cannot be read and a response without a
  token each make \<open>generateToken\<close> throw; a failed attempt leaves the token and the expiry
  as they were (an empty cache stays empty). When the failure happened under \<open>getToken\<close>
  and the clock has not gone back, the next \<open>getToken\<close> attempts the acquisition again.
\<close>

theorem generateToken_failure_keeps_cache:
  "(\<forall>x. net e (length (sent w)) (tokenRequest s) = Fault x \<longrightarrow>
        fst (generateToken e s w) = Inl x) \<and>
   (\<forall>d x. net e (length (sent w)) (tokenRequest s) = Data d \<and> extractAccessToken d = Inl x \<longrightarrow>
        fst (generateToken e s w) = Inl x) \<and>
   (\<forall>d tok. net e (length (sent w)) (tokenRequest s) = Data d \<and> extractAccessToken d = Inr tok \<and>
        \<not> truthy tok \<longrightarrow>
        fst (generateToken e s w) = Inl (Error ''Failed to extract token from response'')) \<and>
   (\<forall>err w'. generateToken e s w = (Inl err, w') \<longrightarrow>
        token w' = token w \<and> tokenExpiry w' = tokenExpiry w \<and>
        sent w' = sent w @ [tokenRequest s]) \<and>
   (\<forall>err w'. getToken e s w = (Inl err, w') \<and> now e w \<le> now e w' \<longrightarrow>
        token w' = token w \<and> tokenExpiry w' = tokenExpiry w \<and>
        getToken e s w' = generateToken e s w' \<and>
        sent (snd (getToken e s w')) = sent w @ [tokenRequest s, tokenRequest s])"
proof -
  have keep: "token w' = token w \<and> tokenExpiry w' = tokenExpiry w \<and>
        sent w' = sent w @ [tokenRequest s]"
    if "generateToken e s w = (Inl err, w')" for err w'
    using generateToken_cases[of e s w] that by auto
  have len: "sent (snd (generateToken e s v)) = sent v @ [tokenRequest s]" for v
    using generateToken_cases[of e s v] by auto
  have later: "\<not> isTokenValid v' t'"
    if "\<not> isTokenValid v t" "t \<le> t'" "token v' = token v" "tokenExpiry v' = tokenExpiry v"
    for v v' t t'
    using that by (auto simp: isTokenValid_def Let_def split: option.splits if_splits)
  have again: "token w' = token w \<and> tokenExpiry w' = tokenExpiry w \<and>
        getToken e s w' = generateToken e s w' \<and>
        sent (snd (getToken e s w')) = sent w @ [tokenRequest s, tokenRequest s]"
    if g: "getToken e s w = (Inl err, w')" and m: "now e w \<le> now e w'" for err w'
  proof -
    from g have nv: "\<not> isTokenValid w (now e w)"
      by (auto simp: getToken_def split: if_splits)
    with g have gen: "generateToken e s w = (Inl err, w')"
      by (simp add: getToken_def)
    from keep[OF gen] have k: "token w' = token w" "tokenExpiry w' = tokenExpiry w"
      "sent w' = sent w @ [tokenRequest s]" by simp_all
    from later[OF nv m k(1) k(2)] have "getToken e s w' = generateToken e s w'"
      by (simp add: getToken_def)
    with k len[of w'] show ?thesis by simp
  qed
  have f1: "\<forall>x. net e (length (sent w)) (tokenRequest s) = Fault x \<longrightarrow>
        fst (generateToken e s w) = Inl x"
    by (simp add: generateToken_fault)
  have f2: "\<forall>d x. net e (length (sent w)) (tokenRequest s) = Data d \<and> extractAccessToken d = Inl x \<longrightarrow>
        fst (generateToken e s w) = Inl x"
    by (simp add: generateToken_malformed)
  have f3: "\<forall>d tok. net e (length (sent w)) (tokenRequest s) = Data d \<and> extractAccessToken d = Inr tok \<and>
        \<not> truthy tok \<longrightarrow>
        fst (generateToken e s w) = Inl (Error ''Failed to extract token from response'')"
    by (simp add: generateToken_missing)
  from keep have f4: "\<forall>err w'. generateToken e s w = (Inl err, w') \<longrightarrow>
        token w' = token w \<and> tokenExpiry w' = tokenExpiry w \<and>
        sent w' = sent w @ [tokenRequest s]"
    by blast
  from again have f5: "\<forall>err w'. getToken e s w = (Inl err, w') \<and> now e w \<le> now e w' \<longrightarrow>
        token w' = token w \<and> tokenExpiry w' = tokenExpiry w \<and>
        getToken e s w' = generateToken e s w' \<and>
        sent (snd (getToken e s w')) = sent w @ [tokenRequest s, tokenRequest s]"
    by blast
  from f1 f2 f3 f4 f5 show ?thesis by (intro conjI)
qed

theorem generateToken_failure_keeps_cache_witness:
  "getToken envOnce settings0 worldStale =
     (Inl (AxiosError ''Network Error''), worldStale\<lparr>sent := [tokenRequest settings0, tokenRequest settings0]\<rparr>) \<and>
   token (snd (getToken envOnce settings0 worldStale)) = JStr ''tok0'' \<and>
   sent (snd (getToken envOnce settings0 (snd (getToken envOnce settings0 worldStale)))) =
     [tokenRequest settings0, tokenRequest settings0, tokenRequest settings0]"
proof -
  have g: "getToken envOnce settings0 worldStale =
     (Inl (AxiosError ''Network Error''), worldStale\<lparr>sent := [tokenRequest settings0, tokenRequest settings0]\<rparr>)"
    by (simp add: generateToken_def getToken_def isTokenValid_def now_def worldStale_def envOnce_def
      Let_def tokenRefreshBuffer_def)
  have m: "now envOnce worldStale \<le> now envOnce (worldStale\<lparr>sent := [tokenRequest settings0, tokenRequest settings0]\<rparr>)"
    by (simp add: now_def envOnce_def)
  from generateToken_failure_keeps_cache[of envOnce worldStale settings0] g m
  have "token (worldStale\<lparr>sent := [tokenRequest settings0, tokenRequest settings0]\<rparr>) = token worldStale \<and>
        sent (snd (getToken envOnce settings0 (worldStale\<lparr>sent := [tokenRequest settings0, tokenRequest settings0]\<rparr>))) =
        sent worldStale @ [tokenRequest settings0, tokenRequest settings0]"
    by blast
  with g show ?thesis by (simp add: worldStale_def)
qed

section \<open>OrderService: the order transformation\<close>

lemma bindE_simps [simp]: "bindE (Inr x) f = f x" "bindE (Inl e) f = Inl e"
  by (simp_all add: bindE_def)

lemma bindE_Inr_iff: "bindE m f = Inr y \<longleftrightarrow> (\<exists>x. m = Inr x \<and> f x = Inr y)"
  by (cases m) simp_all

lemma isl_bindE: "isl (bindE m f) \<longleftrightarrow> isl m \<or> isl (f (projr m))"
  by (cases m) simp_all

lemma transformItem_LineNumber:
  "transformItem b item i = Inr y \<Longrightarrow> getOpt y ''LineNumber'' = JNum (Num (of_nat (Suc i)))"
  by (auto simp: transformItem_def bindE_Inr_iff getOpt_def)

lemma mapE_length: "mapE f i xs = Inr ys \<Longrightarrow> length ys = length xs"
  by (induction xs arbitrary: i ys) (auto simp: bindE_Inr_iff)

lemma mapE_LineNumbers:
  "mapE (transformItem b) i xs = Inr ys \<Longrightarrow>
   map (\<lambda>it. getOpt it ''LineNumber'') ys = map (\<lambda>k. JNum (Num (of_nat k))) [Suc i ..< Suc i + length xs]"
proof (induction xs arbitrary: i ys)
  case Nil
  then show ?case by simp
next
  case (Cons x xs)
  from Cons.prems obtain y ys' where y: "transformItem b x i = Inr y"
    and r: "mapE (transformItem b) (Suc i) xs = Inr ys'" and e: "ys = y # ys'"
    by (auto simp: bindE_Inr_iff)
  have "[Suc i ..< Suc i + length (x # xs)] = Suc i # [Suc (Suc i) ..< Suc (Suc i) + length xs]"
    by (simp add: upt_rec)
  with Cons.IH[OF r] transformItem_LineNumber[OF y] e show ?case by simp
qed

lemma transformShopifyOrder_items:
  "transformShopifyOrder b s order = Inr payload \<Longrightarrow>
   \<exists>xs ys. getOpt order ''line_items'' = JArr xs \<and> mapE (transformItem b) 0 xs = Inr ys \<and>
           orderItems payload = ys"
  unfolding transformShopifyOrder_def Let_def bindE_Inr_iff
  apply (elim exE conjE)
  apply (auto simp: orderItems_def getOpt_def transformItems_def split: jsval.splits)
  done

lemma isl_getProp: "isl (getProp v k) \<longleftrightarrow> nullish v"
  by (cases v) simp_all

lemma toStr_falsy: "\<not> truthy v \<Longrightarrow> \<not> isl (toStr b v)"
  by (cases v) (simp_all add: toStr_def)

lemma isl_toStr: "isl (toStr b v) \<longleftrightarrow> \<not> convertible b v"
  by (simp add: convertible_def)

lemma convertible_orElse:
  "convertible b (orElse v (JNum (Num 0))) \<longleftrightarrow> convertible b v"
proof (cases "truthy v")
  case True
  then show ?thesis by (simp add: orElse_def)
next
  case False
  then have "convertible b v" by (simp add: convertible_def toStr_falsy)
  moreover have "convertible b (JNum (Num 0))" by (simp add: convertible_def toStr_def)
  ultimately show ?thesis using False by (simp add: orElse_def)
qed

lemma isl_parseFloat: "isl (parseFloat b v) \<longleftrightarrow> \<not> convertible b v"
  by (simp add: parseFloat_def convertible_def isl_bindE)

lemma isl_toISOString: "isl (toISOString b v) \<longleftrightarrow> \<not> validDate b v"
  by (cases "toPrimitive b v") (auto simp: toISOString_def validDate_def split: option.splits)

lemma getProp_getOpt: "\<not> nullish v \<Longrightarrow> getProp v k = Inr (getOpt v k)"
  by (cases v) (simp_all add: getOpt_def)

lemma isl_transformItem: "isl (transformItem b x i) \<longleftrightarrow> \<not> itemOk b x"
proof (cases "nullish x")
  case True
  then show ?thesis by (simp add: transformItem_def itemOk_def isl_bindE isl_getProp)
next
  case False
  then show ?thesis
    by (auto simp: transformItem_def itemOk_def getProp_getOpt isl_bindE isl_parseFloat
        convertible_orElse isl_toStr)
qed

lemma isl_mapE:
  assumes "\<And>x i. isl (f x i) = (\<not> P x)"
  shows "isl (mapE f i xs) \<longleftrightarrow> \<not> list_all P xs"
  by (induction xs arbitrary: i) (auto simp: isl_bindE assms)

lemma isl_transformItems:
  "isl (transformItems b v) \<longleftrightarrow>
     \<not> (case v of JArr xs \<Rightarrow> list_all (itemOk b) xs | _ \<Rightarrow> False)"
  by (cases v) (simp_all add: transformItems_def isl_mapE[where P="itemOk b"] isl_transformItem)

lemma isl_shippingLine:
  "isl (bindE (getProp l ''price'') (\<lambda>price. parseFloat b (orElse price (JNum (Num 0))))) \<longleftrightarrow>
     \<not> lineOk b l"
  by (cases "nullish l")
     (simp_all add: lineOk_def isl_bindE isl_getProp getProp_getOpt isl_parseFloat convertible_orElse)

lemma isl_sumShipping:
  "isl (sumShipping b acc ls) \<longleftrightarrow> \<not> list_all (lineOk b) ls"
proof (induction ls arbitrary: acc)
  case Nil
  then show ?case by simp
next
  case (Cons l ls)
  show ?case
  proof (cases "lineOk b l")
    case True
    then have n: "\<not> nullish l" and c: "convertible b (getOpt l ''price'')"
      by (simp_all add: lineOk_def)
    from c have "\<not> isl (parseFloat b (orElse (getOpt l ''price'') (JNum (Num 0))))"
      by (simp add: isl_parseFloat convertible_orElse)
    then obtain a where "parseFloat b (orElse (getOpt l ''price'') (JNum (Num 0))) = Inr a"
      by (cases "parseFloat b (orElse (getOpt l ''price'') (JNum (Num 0)))") simp_all
    with n True Cons.IH show ?thesis by (simp add: getProp_getOpt)
  next
    case False
    with isl_shippingLine[of l b] show ?thesis
      by (cases "getProp l ''price''") (auto simp: isl_bindE)
  qed
qed

lemma isl_shippingChargeOf:
  "isl (shippingChargeOf b v) \<longleftrightarrow>
     \<not> (nullish v \<or> (case v of JArr ls \<Rightarrow> list_all (lineOk b) ls | _ \<Rightarrow> False))"
  by (cases v) (simp_all add: shippingChargeOf_def isl_bindE isl_sumShipping)

lemma isl_lowerKey: "isl (lowerKey var v) \<longleftrightarrow> \<not> (nullish v \<or> isString v)"
  by (cases v) (simp_all add: lowerKey_def isString_def)

lemma isl_mapPaymentGateway: "isl (mapPaymentGateway v) \<longleftrightarrow> \<not> (nullish v \<or> isString v)"
  by (simp add: mapPaymentGateway_def isl_bindE isl_lowerKey)

lemma isl_getStateGSTCode: "isl (getStateGSTCode v) \<longleftrightarrow> \<not> (nullish v \<or> isString v)"
  by (simp add: getStateGSTCode_def isl_bindE isl_lowerKey)

lemma isl_transformShopifyOrder:
  "isl (transformShopifyOrder b s order) \<longleftrightarrow> \<not> transformable b order"
  unfolding transformShopifyOrder_def transformable_def Let_def
  by (auto simp: isl_bindE isl_getProp isl_toISOString isl_transformItems isl_shippingChargeOf
      isl_mapPaymentGateway isl_getStateGSTCode isl_parseFloat isl_toStr)

text \<open>
  C8. Whenever the transformation returns, the source order's \<open>line_items\<close> is an array of
  some length \<open>N\<close>, the transformed order has \<open>N\<close> items and their \<open>LineNumber\<close>s are
  \<open>1, ..., N\<close> in that order, whatever the identifiers of the source items; a second run
  on the same order gives the same numbers.
\<close>

theorem lineNumbers_contiguous:
  assumes "transformShopifyOrder b s order = Inr payload"
  shows "(\<exists>xs. getOpt order ''line_items'' = JArr xs \<and>
            length (orderItems payload) = length xs \<and>
            lineNumbers payload = map (\<lambda>k. JNum (Num (of_nat k))) [1 ..< Suc (length xs)]) \<and>
         (\<forall>payload'. transformShopifyOrder b s order = Inr payload' \<longrightarrow>
            lineNumbers payload' = lineNumbers payload)"
proof -
  from transformShopifyOrder_items[OF assms] obtain xs ys where
    x: "getOpt order ''line_items'' = JArr xs" and m: "mapE (transformItem b) 0 xs = Inr ys"
    and o: "orderItems payload = ys" by blast
  from mapE_LineNumbers[OF m] mapE_length[OF m] x o
  have "getOpt order ''line_items'' = JArr xs \<and>
        length (orderItems payload) = length xs \<and>
        lineNumbers payload = map (\<lambda>k. JNum (Num (of_nat k))) [1 ..< Suc (length xs)]"
    by (simp add: lineNumbers_def)
  moreover have "\<forall>payload'. transformShopifyOrder b s order = Inr payload' \<longrightarrow>
            lineNumbers payload' = lineNumbers payload"
    using assms by simp
  ultimately show ?thesis by blast
qed

lemma transformable_order0: "transformable builtins0 order0"
  by (simp add: transformable_def order0_def order0Fields_def builtins0_def getOpt_def itemOk_def
      isString_def orElse_def toStr_def validDate_def toPrimitive_def convertible_def)

theorem lineNumbers_contiguous_witness:
  "\<not> isl (transformShopifyOrder builtins0 settings0 order0) \<and>
   lineNumbers (projr (transformShopifyOrder builtins0 settings0 order0)) =
     [JNum (Num 1), JNum (Num 2), JNum (Num 3)]"
proof -
  have n: "\<not> isl (transformShopifyOrder builtins0 settings0 order0)"
    using transformable_order0 by (simp add: isl_transformShopifyOrder)
  then have e: "transformShopifyOrder builtins0 settings0 order0 =
                Inr (projr (transformShopifyOrder builtins0 settings0 order0))"
    by (cases "transformShopifyOrder builtins0 settings0 order0") simp_all
  have l: "getOpt order0 ''line_items'' = JArr xs \<Longrightarrow> length xs = 3" for xs
    by (auto simp: order0_def order0Fields_def getOpt_def)
  have u: "map (\<lambda>k. JNum (Num (of_nat k))) [1 ..< Suc 3] = [JNum (Num 1), JNum (Num 2), JNum (Num 3)]"
    by (simp add: upt_rec)
  from lineNumbers_contiguous[OF e] obtain xs where
    x: "getOpt order0 ''line_items'' = JArr xs" and
    y: "lineNumbers (projr (transformShopifyOrder builtins0 settings0 order0)) =
          map (\<lambda>k. JNum (Num (of_nat k))) [1 ..< Suc (length xs)]"
    by blast
  from l[OF x] y have "lineNumbers (projr (transformShopifyOrder builtins0 settings0 order0)) =
          map (\<lambda>k. JNum (Num (of_nat k))) [1 ..< Suc 3]"
    by simp
  with u n show ?thesis by simp
qed

lemma transformable_orderNoDestination: "transformable builtins0 orderNoDestination"
  by (simp add: transformable_def orderNoDestination_def without_def order0Fields_def
      builtins0_def getOpt_def itemOk_def isString_def orElse_def toStr_def validDate_def
      toPrimitive_def convertible_def)

text \<open>
  C7, as stated, fails: an order without \<open>line_items\<close> makes the transformation throw a
  TypeError whose message names no field of the order, not a MalformedInputError; an order
  without \<open>created_at\<close>, which is not among the required fields the claim lists, makes it
  throw a RangeError; and an order without any destination is transformed.
\<close>

theorem transformShopifyOrder_MalformedInputError_counterexample:
  "transformShopifyOrder builtins0 settings0 orderNoItems =
     Inl (TypeError ''Cannot read properties of undefined (reading 'map')'') \<and>
   errName (TypeError ''Cannot read properties of undefined (reading 'map')'') \<noteq>
     ''MalformedInputError'' \<and>
   transformShopifyOrder builtins0 settings0 orderNoDate = Inl (RangeError ''Invalid time value'') \<and>
   \<not> isl (transformShopifyOrder builtins0 settings0 orderNoDestination)"
proof -
  have a: "transformShopifyOrder builtins0 settings0 orderNoItems =
     Inl (TypeError ''Cannot read properties of undefined (reading 'map')'')"
    by (simp add: transformShopifyOrder_def orderNoItems_def without_def order0Fields_def
        builtins0_def getOpt_def orElse_def toISOString_def toPrimitive_def transformItems_def
        Let_def)
  have b: "transformShopifyOrder builtins0 settings0 orderNoDate = Inl (RangeError ''Invalid time value'')"
    by (simp add: transformShopifyOrder_def orderNoDate_def without_def order0Fields_def
        builtins0_def getOpt_def orElse_def toISOString_def toPrimitive_def Let_def)
  have c: "\<not> isl (transformShopifyOrder builtins0 settings0 orderNoDestination)"
    using transformable_orderNoDestination by (simp add: isl_transformShopifyOrder)
  from a b c show ?thesis by simp
qed

lemma createSalesOrder_rejected:
  "transformShopifyOrder b s order = Inl err \<Longrightarrow> createSalesOrder e s b order w = (Inl err, w)"
  by (simp add: createSalesOrder_def)

lemma handleOrderCreate_rejected:
  assumes "transformShopifyOrder b s order = Inl err"
    and "bindE (getProp order ''name'') (toStr b) = Inr line"
  shows "handleOrderCreate e s b order w =
           (Inr (caught order err), afterCustomerStage e s b order w)"
  using assms
  by (simp add: handleOrderCreate_def afterCustomerStage_def Let_def createSalesOrder_rejected)

lemma transformShopifyOrder_no_items:
  assumes "\<not> nullish order" "validDate b (getOpt order ''created_at'')"
    "nullish (getOpt order ''line_items'')"
  shows "\<exists>m. transformShopifyOrder b s order = Inl (TypeError m)"
proof -
  from assms(2) have "\<not> isl (toISOString b (getOpt order ''created_at''))"
    by (simp add: isl_toISOString)
  then obtain t where t: "toISOString b (getOpt order ''created_at'') = Inr t"
    by (cases "toISOString b (getOpt order ''created_at'')") simp_all
  from assms(3) have "\<exists>m. transformItems b (getOpt order ''line_items'') = Inl (TypeError m)"
    by (cases "getOpt order ''line_items''") (simp_all add: transformItems_def)
  with t assms(1) show ?thesis
    by (auto simp: transformShopifyOrder_def Let_def getProp_getOpt)
qed

lemma transformShopifyOrder_no_date:
  assumes "\<not> nullish order" "toPrimitive b (getOpt order ''created_at'') = Inr p"
    "p = JUndefined \<or> isoString b p = None"
  shows "transformShopifyOrder b s order = Inl (RangeError ''Invalid time value'')"
proof -
  from assms(2,3)
  have "toISOString b (getOpt order ''created_at'') = Inl (RangeError ''Invalid time value'')"
    by (auto simp: toISOString_def)
  with assms(1) show ?thesis
    by (simp add: transformShopifyOrder_def Let_def getProp_getOpt)
qed

text \<open>
  C7, amended. The transformation fails exactly on the orders that are not
  \<open>transformable\<close>; a missing customer, address (the destination included), shipping
  line, gateway, note or e-mail never makes it fail. There is no MalformedInputError: on
  an order with a valid date and without \<open>line_items\<close> it throws a TypeError, and with
  \<open>created_at\<close> missing or not a valid date it throws the RangeError of \<open>toISOString\<close>. When
  it fails, \<open>createSalesOrder\<close> fails with the same error without sending any request, and
  \<open>handleOrderCreate\<close> returns the failure having sent nothing beyond the requests of the
  customer synchronisation.
\<close>

theorem transformShopifyOrder_fails_iff:
  "(isl (transformShopifyOrder b s order) \<longleftrightarrow> \<not> transformable b order) \<and>
   (\<not> nullish order \<and> validDate b (getOpt order ''created_at'') \<and>
      nullish (getOpt order ''line_items'') \<longrightarrow>
      (\<exists>m. transformShopifyOrder b s order = Inl (TypeError m))) \<and>
   (\<forall>p. \<not> nullish order \<and> toPrimitive b (getOpt order ''created_at'') = Inr p \<and>
      (p = JUndefined \<or> isoString b p = None) \<longrightarrow>
      transformShopifyOrder b s order = Inl (RangeError ''Invalid time value'')) \<and>
   (\<forall>err. transformShopifyOrder b s order = Inl err \<longrightarrow>
      createSalesOrder e s b order w = (Inl err, w) \<and>
      (\<forall>line. bindE (getProp order ''name'') (toStr b) = Inr line \<longrightarrow>
         handleOrderCreate e s b order w =
           (Inr (caught order err), afterCustomerStage e s b order w)))"
proof -
  have a: "isl (transformShopifyOrder b s order) \<longleftrightarrow> \<not> transformable b order"
    by (rule isl_transformShopifyOrder)
  have i: "\<not> nullish order \<and> validDate b (getOpt order ''created_at'') \<and>
      nullish (getOpt order ''line_items'') \<longrightarrow>
      (\<exists>m. transformShopifyOrder b s order = Inl (TypeError m))"
    using transformShopifyOrder_no_items[of order b s] by blast
  have d: "\<forall>p. \<not> nullish order \<and> toPrimitive b (getOpt order ''created_at'') = Inr p \<and>
      (p = JUndefined \<or> isoString b p = None) \<longrightarrow>
      transformShopifyOrder b s order = Inl (RangeError ''Invalid time value'')"
    using transformShopifyOrder_no_date[of order b _ s] by blast
  have r: "\<forall>err. transformShopifyOrder b s order = Inl err \<longrightarrow>
      createSalesOrder e s b order w = (Inl err, w) \<and>
      (\<forall>line. bindE (getProp order ''name'') (toStr b) = Inr line \<longrightarrow>
         handleOrderCreate e s b order w =
           (Inr (caught order err), afterCustomerStage e s b order w))"
    using createSalesOrder_rejected[of b s order _ e w] handleOrderCreate_rejected[of b s order _ _ e w]
    by blast
  from a i d r show ?thesis by (intro conjI)
qed

theorem transformShopifyOrder_fails_iff_witness:
  "transformable builtins0 order0 \<and>
   \<not> isl (transformShopifyOrder builtins0 settings0 order0) \<and>
   transformable builtins0 orderNoDestination \<and>
   \<not> isl (transformShopifyOrder builtins0 settings0 orderNoDestination) \<and>
   \<not> transformable builtins0 orderNoItems \<and>
   (\<exists>m. createSalesOrder envOnce settings0 builtins0 orderNoItems constructor =
          (Inl (TypeError m), constructor)) \<and>
   createSalesOrder envOnce settings0 builtins0 orderNoDate constructor =
          (Inl (RangeError ''Invalid time value''), constructor) \<and>
   \<not> transformable builtins0 orderBadPrice \<and>
   isl (transformShopifyOrder builtins0 settings0 orderBadPrice) \<and>
   fst (handleOrderCreate envOnce settings0 builtins0 orderNoDate constructor) =
     Inr (JObj [(''success'', JBool False), (''orderId'', JNum (Num 1001)),
                (''error'', JStr ''Invalid time value'')])"
proof -
  have i: "\<not> nullish orderNoItems \<and>
           validDate builtins0 (getOpt orderNoItems ''created_at'') \<and>
           nullish (getOpt orderNoItems ''line_items'')"
    by (simp add: orderNoItems_def without_def order0Fields_def builtins0_def getOpt_def
        validDate_def toPrimitive_def)
  have ni: "\<not> transformable builtins0 orderNoItems"
    by (simp add: transformable_def orderNoItems_def without_def order0Fields_def getOpt_def)
  have t: "\<not> nullish orderNoDate \<and>
           toPrimitive builtins0 (getOpt orderNoDate ''created_at'') = Inr JUndefined"
    by (simp add: orderNoDate_def without_def order0Fields_def getOpt_def toPrimitive_def)
  have bp: "\<not> transformable builtins0 orderBadPrice"
    by (simp add: transformable_def orderBadPrice_def without_def order0Fields_def getOpt_def
        convertible_def toStr_def builtins0_def)
  have l: "bindE (getProp orderNoDate ''name'') (toStr builtins0) = Inr ''#1001''"
    by (simp add: orderNoDate_def without_def order0Fields_def toStr_def)
  have o: "caught orderNoDate (RangeError ''Invalid time value'') =
           JObj [(''success'', JBool False), (''orderId'', JNum (Num 1001)),
                 (''error'', JStr ''Invalid time value'')]"
    by (simp add: caught_def orderNoDate_def without_def order0Fields_def getOpt_def)
  note T = transformShopifyOrder_fails_iff
  from T[of builtins0 settings0 order0 envOnce constructor] transformable_order0
  have a: "\<not> isl (transformShopifyOrder builtins0 settings0 order0)" by blast
  from T[of builtins0 settings0 orderNoDestination envOnce constructor]
    transformable_orderNoDestination
  have b: "\<not> isl (transformShopifyOrder builtins0 settings0 orderNoDestination)" by blast
  from T[of builtins0 settings0 orderNoItems envOnce constructor] i
  have c: "\<exists>m. createSalesOrder envOnce settings0 builtins0 orderNoItems constructor =
          (Inl (TypeError m), constructor)" by metis
  from T[of builtins0 settings0 orderNoDate envOnce constructor] t
  have e0: "transformShopifyOrder builtins0 settings0 orderNoDate =
          Inl (RangeError ''Invalid time value'')" by blast
  with T[of builtins0 settings0 orderNoDate envOnce constructor]
  have e: "createSalesOrder envOnce settings0 builtins0 orderNoDate constructor =
          (Inl (RangeError ''Invalid time value''), constructor)" by blast
  from e0 l T[of builtins0 settings0 orderNoDate envOnce constructor]
  have "handleOrderCreate envOnce settings0 builtins0 orderNoDate constructor =
          (Inr (caught orderNoDate (RangeError ''Invalid time value'')),
           afterCustomerStage envOnce settings0 builtins0 orderNoDate constructor)" by blast
  with o have h: "fst (handleOrderCreate envOnce settings0 builtins0 orderNoDate constructor) =
     Inr (JObj [(''success'', JBool False), (''orderId'', JNum (Num 1001)),
                (''error'', JStr ''Invalid time value'')])" by simp
  from T[of builtins0 settings0 orderBadPrice envOnce constructor] bp
  have f: "isl (transformShopifyOrder builtins0 settings0 orderBadPrice)" by blast
  from transformable_order0 a transformable_orderNoDestination b ni c e bp f h
  show ?thesis by (intro conjI)
qed

section \<open>InventoryService and the response parsers\<close>

lemma isl_floatOr0: "isl (floatOr0 b v) \<longleftrightarrow> \<not> convertible b v"
  by (simp add: floatOr0_def isl_bindE isl_parseFloat)

lemma isl_normalizeItem: "isl (normalizeItem b item i) \<longleftrightarrow> \<not> itemFine b item"
proof (cases "nullish item")
  case True
  then show ?thesis by (simp add: normalizeItem_def itemFine_def isl_bindE isl_getProp)
next
  case False
  then show ?thesis
    by (simp add: normalizeItem_def itemFine_def getProp_getOpt isl_bindE isl_floatOr0 isl_toStr)
qed

lemma floatOr0_numericField: "floatOr0 b src = Inr out \<Longrightarrow> numericField b src out"
  by (auto simp: floatOr0_def parseFloat_def numericField_def bindE_Inr_iff)

lemma normalizeItem_matches:
  assumes "normalizeItem b x i = Inr it"
  shows "itemMatches b x it"
proof -
  from assms obtain pc ean mrp stock sp tr pu where
    pc: "getProp x ''ProductCode'' = Inr pc" and
    ean: "toStr b (getOpt x ''EANCode'') = Inr ean" and
    f: "floatOr0 b (getOpt x ''MRP'') = Inr mrp"
       "floatOr0 b (getOpt x ''Stock'') = Inr stock"
       "floatOr0 b (getOpt x ''SalesPrice'') = Inr sp"
       "floatOr0 b (getOpt x ''TaxRate'') = Inr tr"
       "floatOr0 b (getOpt x ''PerUnitSalesPrice'') = Inr pu" and
    it: "it = JObj
       [(''productCode'', pc),
        (''eanCode'', JStr ean),
        (''itemCode'', getOpt x ''ItemCode''),
        (''itemName'', getOpt x ''ItemName''),
        (''mrp'', mrp),
        (''stock'', stock),
        (''salesPrice'', sp),
        (''taxRate'', tr),
        (''lastModified'', getOpt x ''LastModifiedOn''),
        (''saleUnit'', getOpt x ''SaleUnit''),
        (''perUnitPrice'', pu)]"
    unfolding normalizeItem_def bindE_Inr_iff by blast
  from pc have p: "getOpt x ''ProductCode'' = pc" by (simp add: getOpt_def)
  have g: "getOpt it ''productCode'' = pc" "getOpt it ''eanCode'' = JStr ean"
    "getOpt it ''itemCode'' = getOpt x ''ItemCode''"
    "getOpt it ''itemName'' = getOpt x ''ItemName''"
    "getOpt it ''mrp'' = mrp" "getOpt it ''stock'' = stock"
    "getOpt it ''salesPrice'' = sp" "getOpt it ''taxRate'' = tr"
    "getOpt it ''lastModified'' = getOpt x ''LastModifiedOn''"
    "getOpt it ''saleUnit'' = getOpt x ''SaleUnit''"
    "getOpt it ''perUnitPrice'' = pu"
    unfolding it by (simp_all add: getOpt_def)
  from f[THEN floatOr0_numericField] ean p show ?thesis
    unfolding itemMatches_def g by simp
qed

lemma mapE_list_all2:
  assumes "\<And>x i y. f x i = Inr y \<Longrightarrow> R x y"
  shows "mapE f i xs = Inr ys \<Longrightarrow> list_all2 R xs ys"
proof (induction xs arbitrary: i ys)
  case Nil
  then show ?case by simp
next
  case (Cons x xs)
  from Cons.prems obtain y ys' where "f x i = Inr y" "mapE f (Suc i) xs = Inr ys'" "ys = y # ys'"
    by (auto simp: bindE_Inr_iff)
  with Cons.IH assms show ?case by simp
qed

lemma normalizeItems_itemsOf:
  "normalizeItems b items = mapE (normalizeItem b) 0 (itemsOf items)"
  by (cases items) (simp_all add: normalizeItems_def itemsOf_def Let_def)

lemma normalizeItems_fine:
  assumes "list_all (itemFine b) (itemsOf items)"
  shows "\<exists>its. normalizeItems b items = Inr its \<and> list_all2 (itemMatches b) (itemsOf items) its"
proof -
  from assms have "\<not> isl (normalizeItems b items)"
    by (simp add: normalizeItems_itemsOf isl_mapE[where P="itemFine b"] isl_normalizeItem)
  then obtain its where i: "normalizeItems b items = Inr its"
    by (cases "normalizeItems b items") simp_all
  then have m: "mapE (normalizeItem b) 0 (itemsOf items) = Inr its"
    by (simp add: normalizeItems_itemsOf)
  have "list_all2 (itemMatches b) (itemsOf items) its"
  proof (rule mapE_list_all2[where f="normalizeItem b" and R="itemMatches b"])
    show "\<And>x i y. normalizeItem b x i = Inr y \<Longrightarrow> itemMatches b x y"
      by (rule normalizeItem_matches)
    show "mapE (normalizeItem b) 0 (itemsOf items) = Inr its" by (rule m)
  qed
  with i show ?thesis by blast
qed

lemma normalizeLocation_fine:
  assumes "locationFine b loc"
  shows "\<exists>p. normalizeLocation b loc i = Inr p \<and> locationMatches b loc p"
proof -
  from assms have n: "\<not> nullish loc" and
    f: "list_all (itemFine b) (itemsOf (getOpt (getOpt loc ''Items'') ''Item''))"
    by (simp_all add: locationFine_def)
  from normalizeItems_fine[OF f] obtain its where
    i: "normalizeItems b (getOpt (getOpt loc ''Items'') ''Item'') = Inr its" and
    m: "list_all2 (itemMatches b) (itemsOf (getOpt (getOpt loc ''Items'') ''Item'')) its"
    by blast
  from n i have "normalizeLocation b loc i = Inr (getOpt loc ''Location'', its)"
    by (simp add: normalizeLocation_def getProp_getOpt)
  with m show ?thesis by (simp add: locationMatches_def)
qed

lemma normalizeLocation_absent_items:
  "\<not> nullish loc \<Longrightarrow> nullish (getOpt loc ''Items'') \<Longrightarrow>
   normalizeLocation b loc i = Inr (getOpt loc ''Location'', [])"
  by (cases "getOpt loc ''Items''")
     (simp_all add: normalizeLocation_def getProp_getOpt normalizeItems_def getOpt_def[of JUndefined]
        getOpt_def[of JNull])

lemma mapE_normalizeLocation:
  "list_all (locationFine b) locs \<Longrightarrow>
   \<exists>ps. mapE (normalizeLocation b) i locs = Inr ps \<and> list_all2 (locationMatches b) locs ps"
proof (induction locs arbitrary: i)
  case Nil
  then show ?case by simp
next
  case (Cons l locs)
  then have "locationFine b l" by simp
  from normalizeLocation_fine[OF this] obtain p where
    p: "normalizeLocation b l i = Inr p" "locationMatches b l p" by blast
  from Cons obtain ps where ps: "mapE (normalizeLocation b) (Suc i) locs = Inr ps"
    "list_all2 (locationMatches b) locs ps"
    by fastforce
  from p ps show ?case by simp
qed

lemma isSnapshot_inventoryResult: "isSnapshot (inventoryResult True ps JNull) ps"
  by (simp add: isSnapshot_def inventoryResult_def getOpt_def locationEntry_def)

lemma parseInventoryResponse_success:
  assumes "getProp response ''Response'' = Inr r" "getOpt r ''Result'' = JStr ''SUCCESS''"
  shows "parseInventoryResponse b response =
     bindE (case getOpt (getOpt r ''Data'') ''Inventory'' of
              JArr locs \<Rightarrow> mapE (normalizeLocation b) 0 locs
            | _ \<Rightarrow> if truthy (getOpt (getOpt r ''Data'') ''Inventory'')
                   then bindE (normalizeLocation b (getOpt (getOpt r ''Data'') ''Inventory'') 0)
                          (\<lambda>p. Inr [p])
                   else Inr [])
       (\<lambda>locs. Inr (inventoryResult True locs JNull))"
proof -
  from assms(2) have "truthy r" by (cases r) (simp_all add: getOpt_def)
  with assms show ?thesis by (simp add: parseInventoryResponse_def Let_def)
qed

text \<open>
  C9. For a response with a \<open>SUCCESS\<close> envelope and well-formed locations
  (\<open>locationFine\<close>), the parser returns a result without error that carries a uniform
  sequence of \<open>{location, items}\<close> entries: an \<open>Inventory\<close> that is a single object (any
  truthy value that is not an array) gives exactly one entry; an \<open>Inventory\<close> that is an
  array gives one entry per element, in order; each entry carries the \<open>Location\<close> of its
  source and one normalised item for each of the source's items, in order; and a
  location without \<open>Items\<close> gives the empty item sequence, not an error.
\<close>

theorem inventory_normalized:
  assumes "getProp response ''Response'' = Inr r" and "getOpt r ''Result'' = JStr ''SUCCESS''"
  shows "(\<not> isArray (getOpt (getOpt r ''Data'') ''Inventory'') \<and>
          truthy (getOpt (getOpt r ''Data'') ''Inventory'') \<and>
          locationFine b (getOpt (getOpt r ''Data'') ''Inventory'') \<longrightarrow>
            (\<exists>res p. parseInventoryResponse b response = Inr res \<and> isSnapshot res [p] \<and>
               locationMatches b (getOpt (getOpt r ''Data'') ''Inventory'') p)) \<and>
         (\<forall>locs. getOpt (getOpt r ''Data'') ''Inventory'' = JArr locs \<and>
              list_all (locationFine b) locs \<longrightarrow>
            (\<exists>res ps. parseInventoryResponse b response = Inr res \<and> isSnapshot res ps \<and>
               list_all2 (locationMatches b) locs ps)) \<and>
         (\<forall>loc i. \<not> nullish loc \<and> nullish (getOpt loc ''Items'') \<longrightarrow>
            normalizeLocation b loc i = Inr (getOpt loc ''Location'', []))"
proof (intro conjI impI allI)
  let ?inv = "getOpt (getOpt r ''Data'') ''Inventory''"
  assume a: "\<not> isArray ?inv \<and> truthy ?inv \<and> locationFine b ?inv"
  then have "locationFine b ?inv" by simp
  from normalizeLocation_fine[OF this] obtain p where
    p: "normalizeLocation b ?inv 0 = Inr p" and m: "locationMatches b ?inv p" by blast
  from a p have "parseInventoryResponse b response = Inr (inventoryResult True [p] JNull)"
    by (cases ?inv) (simp_all add: parseInventoryResponse_success[OF assms] isArray_def)
  with m isSnapshot_inventoryResult[of "[p]"]
  show "\<exists>res p. parseInventoryResponse b response = Inr res \<and> isSnapshot res [p] \<and>
               locationMatches b ?inv p"
    by blast
next
  fix locs
  assume a: "getOpt (getOpt r ''Data'') ''Inventory'' = JArr locs \<and> list_all (locationFine b) locs"
  with mapE_normalizeLocation[of b locs 0] obtain ps where
    ps: "mapE (normalizeLocation b) 0 locs = Inr ps" and m: "list_all2 (locationMatches b) locs ps"
    by blast
  from a ps have "parseInventoryResponse b response = Inr (inventoryResult True ps JNull)"
    by (simp add: parseInventoryResponse_success[OF assms])
  with m isSnapshot_inventoryResult[of ps]
  show "\<exists>res ps. parseInventoryResponse b response = Inr res \<and> isSnapshot res ps \<and>
               list_all2 (locationMatches b) locs ps"
    by blast
next
  fix loc i
  assume "\<not> nullish loc \<and> nullish (getOpt loc ''Items'')"
  then show "normalizeLocation b loc i = Inr (getOpt loc ''Location'', [])"
    by (simp add: normalizeLocation_absent_items)
qed

theorem inventory_normalized_witness:
  "(\<exists>res p. parseInventoryResponse builtins0 inventoryOk = Inr res \<and> isSnapshot res [p] \<and>
      fst p = JStr ''HO'' \<and>
      (\<exists>it. snd p = [it] \<and> getOpt it ''productCode'' = JStr ''P1'' \<and>
         getOpt it ''eanCode'' = JStr ''890'' \<and> getOpt it ''stock'' = JNum (Num 10) \<and>
         getOpt it ''mrp'' = JNum (Num 0))) \<and>
   (\<exists>res ps. parseInventoryResponse builtins0 inventoryTwo = Inr res \<and> isSnapshot res ps \<and>
      map fst ps = [JStr ''HO'', JStr ''WH2''] \<and> map (\<lambda>p. length (snd p)) ps = [0, 2]) \<and>
   normalizeLocation builtins0 (JObj [(''Location'', JStr ''HO'')]) 0 = Inr (JStr ''HO'', [])"
proof -
  let ?item = "JObj [(''ProductCode'', JStr ''P1''), (''EANCode'', JStr ''890'') , (''Stock'', JStr ''10.00'')]"
  let ?one = "JObj [(''Location'', JStr ''HO''), (''Items'', JObj [(''Item'', ?item)])]"
  let ?r1 = "JObj [(''Result'', JStr ''SUCCESS''), (''Data'', JObj [(''Inventory'', ?one)])]"
  let ?l1 = "JObj [(''Location'', JStr ''HO'')]"
  let ?i1 = "JObj [(''ProductCode'', JStr ''P1''), (''EANCode'', JStr ''890'')]"
  let ?i2 = "JObj [(''ProductCode'', JStr ''P2''), (''EANCode'', JStr ''891'')]"
  let ?l2 = "JObj [(''Location'', JStr ''WH2''), (''Items'', JObj [(''Item'', JArr [?i1, ?i2])])]"
  let ?r2 = "JObj [(''Result'', JStr ''SUCCESS''), (''Data'', JObj [(''Inventory'', JArr [?l1, ?l2])])]"
  have r1: "getProp inventoryOk ''Response'' = Inr ?r1" "getOpt ?r1 ''Result'' = JStr ''SUCCESS''"
    by (simp_all add: inventoryOk_def getOpt_def)
  have r2: "getProp inventoryTwo ''Response'' = Inr ?r2" "getOpt ?r2 ''Result'' = JStr ''SUCCESS''"
    by (simp_all add: inventoryTwo_def getOpt_def)
  have i1: "getOpt (getOpt ?r1 ''Data'') ''Inventory'' = ?one"
    by (simp add: getOpt_def)
  have i2: "getOpt (getOpt ?r2 ''Data'') ''Inventory'' = JArr [?l1, ?l2]"
    by (simp add: getOpt_def)
  have s1: "itemsOf (getOpt (getOpt ?one ''Items'') ''Item'') = [?item]"
    "itemsOf (getOpt (getOpt ?l1 ''Items'') ''Item'') = []"
    "itemsOf (getOpt (getOpt ?l2 ''Items'') ''Item'') = [?i1, ?i2]"
    by (simp_all add: itemsOf_def getOpt_def)
  have c: "itemFine builtins0 ?item" "itemFine builtins0 ?i1" "itemFine builtins0 ?i2"
    by (simp_all add: itemFine_def convertible_def getOpt_def toStr_def)
  have f1: "\<not> isArray ?one \<and> truthy ?one \<and> locationFine builtins0 ?one"
    by (simp add: locationFine_def s1 c isArray_def)
  have f2: "list_all (locationFine builtins0) [?l1, ?l2]"
    by (simp add: locationFine_def s1 c)
  have n3: "\<not> nullish ?l1 \<and> nullish (getOpt ?l1 ''Items'')"
    by (simp add: getOpt_def)
  note T1 = inventory_normalized[OF r1, of builtins0, unfolded i1]
  note T2 = inventory_normalized[OF r2, of builtins0, unfolded i2]
  from T1 f1 obtain res p where
    a1: "parseInventoryResponse builtins0 inventoryOk = Inr res" "isSnapshot res [p]" and
    a2: "locationMatches builtins0 ?one p"
    by blast
  from a2 have a3: "fst p = JStr ''HO''" and
    a4: "list_all2 (itemMatches builtins0) [?item] (snd p)"
    unfolding locationMatches_def s1 by (simp_all add: getOpt_def)
  from a4 obtain it where a5: "snd p = [it]" and a6: "itemMatches builtins0 ?item it"
    by (auto simp: list_all2_Cons1)
  from a6 have a7: "getOpt it ''productCode'' = JStr ''P1'' \<and>
         getOpt it ''eanCode'' = JStr ''890'' \<and> getOpt it ''stock'' = JNum (Num 10) \<and>
         getOpt it ''mrp'' = JNum (Num 0)"
    by (simp add: itemMatches_def numericField_def getOpt_def[of ?item] toStr_def builtins0_def
        orElse_def)
  from a1 a3 a5 a7 have a: "\<exists>res p. parseInventoryResponse builtins0 inventoryOk = Inr res \<and> isSnapshot res [p] \<and>
      fst p = JStr ''HO'' \<and>
      (\<exists>it. snd p = [it] \<and> getOpt it ''productCode'' = JStr ''P1'' \<and>
         getOpt it ''eanCode'' = JStr ''890'' \<and> getOpt it ''stock'' = JNum (Num 10) \<and>
         getOpt it ''mrp'' = JNum (Num 0))"
    by blast
  from T2 f2 obtain res2 ps where
    b1: "parseInventoryResponse builtins0 inventoryTwo = Inr res2" "isSnapshot res2 ps" and
    b2: "list_all2 (locationMatches builtins0) [?l1, ?l2] ps"
    by blast
  from b2 obtain p1 p2 where b3: "ps = [p1, p2]" and
    b4: "locationMatches builtins0 ?l1 p1" "locationMatches builtins0 ?l2 p2"
    by (auto simp: list_all2_Cons1)
  from b4 have b5: "fst p1 = JStr ''HO''" "fst p2 = JStr ''WH2''" "length (snd p1) = 0"
    "length (snd p2) = 2"
    unfolding locationMatches_def s1 by (auto simp: getOpt_def dest: list_all2_lengthD)
  from b1 b3 b5 have b: "\<exists>res ps. parseInventoryResponse builtins0 inventoryTwo = Inr res \<and> isSnapshot res ps \<and>
      map fst ps = [JStr ''HO'', JStr ''WH2''] \<and> map (\<lambda>p. length (snd p)) ps = [0, 2]"
    by auto
  from T1 n3 have c3: "normalizeLocation builtins0 ?l1 0 = Inr (JStr ''HO'', [])"
    by (simp add: getOpt_def)
  from a b c3 show ?thesis by (intro conjI)
qed

text \<open>
  C4. On the empty object, which has no envelope, \<open>parseOrderResponse\<close> answers
  \<open>{success: false, error: 'Invalid response format'}\<close>, whereas \<open>parseInventoryResponse\<close>
  answers with \<open>success: false\<close> and \<open>error: null\<close>; on the body \<open>null\<close> both parsers throw a
  TypeError instead of returning.
\<close>

theorem parse_missing_envelope:
  "parseInventoryResponse builtins0 (JObj []) =
     Inr (JObj [(''success'', JBool False), (''inventoryByLocation'', JArr []),
                (''totalItems'', JNum (Num 0)), (''error'', JNull)]) \<and>
   parseOrderResponse (JObj []) =
     Inr (JObj [(''success'', JBool False), (''error'', JStr ''Invalid response format'')]) \<and>
   parseInventoryResponse builtins0 JNull =
     Inl (TypeError ''Cannot read properties of null (reading 'Response')'') \<and>
   parseOrderResponse JNull =
     Inl (TypeError ''Cannot read properties of null (reading 'Response')'')"
  by (simp add: parseInventoryResponse_def parseOrderResponse_def inventoryResult_def)

section \<open>WebhookHandlers\<close>

lemma getToken_Inr:
  assumes "getToken e s w = (Inr tok, w1)"
  shows "token w1 = tok \<and> (\<exists>pre. sent w1 = sent w @ pre)"
proof (cases "isTokenValid w (now e w)")
  case True
  with assms show ?thesis by (auto simp: getToken_def)
next
  case False
  with assms have "generateToken e s w = (Inr tok, w1)" by (simp add: getToken_def)
  with generateToken_cases[of e s w] show ?thesis by auto
qed

lemma makeRequest_Inr:
  assumes "makeRequest e s m d w = (Inr resp, w2)"
  shows "\<exists>pre. sent w2 = sent w @ pre @ [gatewayRequest s m (token w2) d]"
proof -
  obtain r w1 where g: "getToken e s w = (r, w1)" by (cases "getToken e s w")
  with assms obtain tok where r: "r = Inr tok" by (cases r) (auto simp: makeRequest_def)
  from getToken_Inr[OF g[unfolded r]] obtain pre where
    t: "token w1 = tok" and p: "sent w1 = sent w @ pre" by blast
  from assms g r have "w2 = w1\<lparr>sent := sent w1 @ [gatewayRequest s m tok d]\<rparr>"
    by (auto simp: makeRequest_def Let_def gatewayRequest_def split: reply.splits)
  with t p show ?thesis by simp
qed

lemma createSalesOrder_Inr:
  assumes "createSalesOrder e s b order w1 = (Inr result, w2)"
  shows "\<exists>od resp line. transformShopifyOrder b s order = Inr od \<and>
           toStr b (orElse (getOpt order ''name'') (getOpt order ''order_number'')) = Inr line \<and>
           makeRequest e s CREATE_SALES_ORDER od w1 = (Inr resp, w2) \<and>
           parseOrderResponse resp = Inr result"
  using assms
  by (auto simp: createSalesOrder_def split: sum.splits prod.splits)



lemma createSalesOrder_logged:
  assumes "createSalesOrder e s b order w1 = (Inr result, w2)"
  shows "\<exists>line. bindE (getProp order ''name'') (toStr b) = Inr line"
proof -
  from createSalesOrder_Inr[OF assms] obtain od line where
    t: "transformShopifyOrder b s order = Inr od" and
    l: "toStr b (orElse (getOpt order ''name'') (getOpt order ''order_number'')) = Inr line"
    by blast
  from t have "\<not> isl (transformShopifyOrder b s order)" by simp
  then have n: "\<not> nullish order" by (simp add: isl_transformShopifyOrder transformable_def)
  have "\<not> isl (toStr b (getOpt order ''name''))"
  proof (cases "truthy (getOpt order ''name'')")
    case True
    with l show ?thesis by (simp add: orElse_def)
  next
    case False
    then show ?thesis by (rule toStr_falsy)
  qed
  then obtain x where "toStr b (getOpt order ''name'') = Inr x"
    by (cases "toStr b (getOpt order ''name'')") simp_all
  with n show ?thesis by (simp add: getProp_getOpt)
qed

text \<open>
  C1. Take an order-creation event with a customer, whose customer synchronisation
  throws or returns a result without \<open>success\<close>, and whose order-create call, made in the
  state the synchronisation left, returns a result with \<open>success\<close>. Then
  \<open>handleOrderCreate\<close> returns \<open>{success: true, orderId, eshopaidRef}\<close>, which has no
  \<open>error\<close>, and the \<open>CreateSalesOrder\<close> request carrying the transformed order is the last
  request sent.
\<close>

theorem handleOrderCreate_customer_failure_tolerated:
  assumes "truthy (getOpt order ''customer'')"
    and "syncFromShopify e s b (getOpt order ''customer'') JNull w = (r, w1)"
    and "isl r \<or> \<not> truthy (getOpt (projr r) ''success'')"
    and "createSalesOrder e s b order w1 = (Inr result, w2)"
    and "truthy (getOpt result ''success'')"
  shows "handleOrderCreate e s b order w =
           (Inr (JObj [(''success'', JBool True),
                       (''orderId'', getOpt order ''id''),
                       (''eshopaidRef'', getOpt (getOpt result ''data'') ''TargetRefID'')]), w2) \<and>
         getOpt (projr (fst (handleOrderCreate e s b order w))) ''error'' = JUndefined \<and>
         (\<exists>od pre. transformShopifyOrder b s order = Inr od \<and>
            sent w2 = sent w1 @ pre @ [gatewayRequest s CREATE_SALES_ORDER (token w2) od])"
proof -
  from createSalesOrder_logged[OF assms(4)] obtain line where
    l: "bindE (getProp order ''name'') (toStr b) = Inr line" by blast
  from assms(2) have w1: "snd (syncFromShopify e s b (getOpt order ''customer'') JNull w) = w1"
    by simp
  from l w1 assms(1,4,5)
  have h: "handleOrderCreate e s b order w =
           (Inr (JObj [(''success'', JBool True),
                       (''orderId'', getOpt order ''id''),
                       (''eshopaidRef'', getOpt (getOpt result ''data'') ''TargetRefID'')]), w2)"
    by (simp add: handleOrderCreate_def Let_def)
  from createSalesOrder_Inr[OF assms(4)] obtain od resp where
    t: "transformShopifyOrder b s order = Inr od" and
    m: "makeRequest e s CREATE_SALES_ORDER od w1 = (Inr resp, w2)" by blast
  from makeRequest_Inr[OF m] t
  have c: "\<exists>od pre. transformShopifyOrder b s order = Inr od \<and>
            sent w2 = sent w1 @ pre @ [gatewayRequest s CREATE_SALES_ORDER (token w2) od]"
    by blast
  from h c show ?thesis by (simp add: getOpt_def)
qed

text \<open>
  C5. The status of an update event is decided by priority: a truthy \<open>cancelled_at\<close> gives
  \<open>CANCELLED\<close> whatever the other flags; otherwise \<open>fulfillment_status\<close> \<open>fulfilled\<close> gives
  \<open>DELIVERED\<close>; otherwise \<open>partial\<close> gives \<open>PARTIALLY_DELIVERED\<close>; otherwise
  \<open>financial_status\<close> \<open>paid\<close> gives \<open>PAID\<close>. When none applies, \<open>handleOrderUpdate\<close> (on an
  event whose name its first log line can print) returns success with status
  \<open>NO_UPDATE_NEEDED\<close> and leaves the state, the requests sent included, unchanged. When
  one applies, it is the status handed to \<open>setOrderStatus\<close> and reported in the outcome.
\<close>

theorem resolveStatus_priority:
  "(truthy (getOpt order ''cancelled_at'') \<longrightarrow> resolveStatus order = JStr ''CANCELLED'') \<and>
   (\<not> truthy (getOpt order ''cancelled_at'') \<and>
    getOpt order ''fulfillment_status'' = JStr ''fulfilled'' \<longrightarrow>
      resolveStatus order = JStr ''DELIVERED'') \<and>
   (\<not> truthy (getOpt order ''cancelled_at'') \<and>
    getOpt order ''fulfillment_status'' = JStr ''partial'' \<longrightarrow>
      resolveStatus order = JStr ''PARTIALLY_DELIVERED'') \<and>
   (\<not> truthy (getOpt order ''cancelled_at'') \<and>
    getOpt order ''fulfillment_status'' \<noteq> JStr ''fulfilled'' \<and>
    getOpt order ''fulfillment_status'' \<noteq> JStr ''partial'' \<and>
    getOpt order ''financial_status'' = JStr ''paid'' \<longrightarrow>
      resolveStatus order = JStr ''PAID'') \<and>
   (\<not> truthy (getOpt order ''cancelled_at'') \<and>
    getOpt order ''fulfillment_status'' \<noteq> JStr ''fulfilled'' \<and>
    getOpt order ''fulfillment_status'' \<noteq> JStr ''partial'' \<and>
    getOpt order ''financial_status'' \<noteq> JStr ''paid'' \<longrightarrow>
      resolveStatus order = JNull \<and>
      (\<forall>line. bindE (getProp order ''name'') (toStr b) = Inr line \<longrightarrow>
         handleOrderUpdate e s b order w =
           (Inr (JObj [(''success'', JBool True),
                       (''orderId'', getOpt order ''id''),
                       (''status'', JStr ''NO_UPDATE_NEEDED'')]), w))) \<and>
   (\<forall>line isoText result w1.
      bindE (getProp order ''name'') (toStr b) = Inr line \<and>
      truthy (resolveStatus order) \<and>
      toISOString b (getOpt order ''created_at'') = Inr isoText \<and>
      setOrderStatus e s b (getOpt order ''name'') (JStr (take 10 isoText)) (resolveStatus order) w =
        (Inr result, w1) \<longrightarrow>
      handleOrderUpdate e s b order w =
        (Inr (JObj [(''success'', getOpt result ''success''),
                    (''orderId'', getOpt order ''id''),
                    (''status'', resolveStatus order),
                    (''error'', getOpt result ''error'')]), w1))"
proof -
  have a: "\<forall>line isoText result w1.
      bindE (getProp order ''name'') (toStr b) = Inr line \<and>
      truthy (resolveStatus order) \<and>
      toISOString b (getOpt order ''created_at'') = Inr isoText \<and>
      setOrderStatus e s b (getOpt order ''name'') (JStr (take 10 isoText)) (resolveStatus order) w =
        (Inr result, w1) \<longrightarrow>
      handleOrderUpdate e s b order w =
        (Inr (JObj [(''success'', getOpt result ''success''),
                    (''orderId'', getOpt order ''id''),
                    (''status'', resolveStatus order),
                    (''error'', getOpt result ''error'')]), w1)"
    by (simp add: handleOrderUpdate_def Let_def)
  have n: "resolveStatus order = JNull \<Longrightarrow> bindE (getProp order ''name'') (toStr b) = Inr line \<Longrightarrow>
         handleOrderUpdate e s b order w =
           (Inr (JObj [(''success'', JBool True),
                       (''orderId'', getOpt order ''id''),
                       (''status'', JStr ''NO_UPDATE_NEEDED'')]), w)" for line
    by (simp add: handleOrderUpdate_def Let_def)
  have p: "(truthy (getOpt order ''cancelled_at'') \<longrightarrow> resolveStatus order = JStr ''CANCELLED'') \<and>
   (\<not> truthy (getOpt order ''cancelled_at'') \<and>
    getOpt order ''fulfillment_status'' = JStr ''fulfilled'' \<longrightarrow>
      resolveStatus order = JStr ''DELIVERED'') \<and>
   (\<not> truthy (getOpt order ''cancelled_at'') \<and>
    getOpt order ''fulfillment_status'' = JStr ''partial'' \<longrightarrow>
      resolveStatus order = JStr ''PARTIALLY_DELIVERED'') \<and>
   (\<not> truthy (getOpt order ''cancelled_at'') \<and>
    getOpt order ''fulfillment_status'' \<noteq> JStr ''fulfilled'' \<and>
    getOpt order ''fulfillment_status'' \<noteq> JStr ''partial'' \<and>
    getOpt order ''financial_status'' = JStr ''paid'' \<longrightarrow>
      resolveStatus order = JStr ''PAID'') \<and>
   (\<not> truthy (getOpt order ''cancelled_at'') \<and>
    getOpt order ''fulfillment_status'' \<noteq> JStr ''fulfilled'' \<and>
    getOpt order ''fulfillment_status'' \<noteq> JStr ''partial'' \<and>
    getOpt order ''financial_status'' \<noteq> JStr ''paid'' \<longrightarrow>
      resolveStatus order = JNull)"
    by (simp add: resolveStatus_def)
  from p n a show ?thesis by blast
qed

theorem resolveStatus_priority_witness:
  "resolveStatus orderCancelled = JStr ''CANCELLED'' \<and>
   handleOrderUpdate (envShop customerFault) settings0 builtins0 orderPending constructor =
     (Inr (JObj [(''success'', JBool True), (''orderId'', JNum (Num 1002)),
                 (''status'', JStr ''NO_UPDATE_NEEDED'')]), constructor) \<and>
   fst (handleOrderUpdate (envShop customerFault) settings0 builtins0 orderCancelled constructor) =
     Inr (JObj [(''success'', JBool True), (''orderId'', JNum (Num 1001)),
                (''status'', JStr ''CANCELLED''), (''error'', JUndefined)])"
proof -
  note T = resolveStatus_priority
  have c: "truthy (getOpt orderCancelled ''cancelled_at'')"
    by (simp add: orderCancelled_def getOpt_def)
  from T[of orderCancelled] c have a: "resolveStatus orderCancelled = JStr ''CANCELLED''"
    by blast
  have p: "\<not> truthy (getOpt orderPending ''cancelled_at'') \<and>
    getOpt orderPending ''fulfillment_status'' \<noteq> JStr ''fulfilled'' \<and>
    getOpt orderPending ''fulfillment_status'' \<noteq> JStr ''partial'' \<and>
    getOpt orderPending ''financial_status'' \<noteq> JStr ''paid''"
    by (simp add: orderPending_def getOpt_def)
  have l: "bindE (getProp orderPending ''name'') (toStr builtins0) = Inr ''#1002''"
    by (simp add: orderPending_def toStr_def)
  from T[of orderPending builtins0 "envShop customerFault" settings0 constructor] p l
  have b: "handleOrderUpdate (envShop customerFault) settings0 builtins0 orderPending constructor =
     (Inr (JObj [(''success'', JBool True), (''orderId'', getOpt orderPending ''id''),
                 (''status'', JStr ''NO_UPDATE_NEEDED'')]), constructor)"
    by blast
  have i: "getOpt orderPending ''id'' = JNum (Num 1002)" "getOpt orderCancelled ''id'' = JNum (Num 1001)"
    by (simp_all add: orderPending_def orderCancelled_def getOpt_def)
  have l2: "bindE (getProp orderCancelled ''name'') (toStr builtins0) = Inr ''#1001''"
    by (simp add: orderCancelled_def toStr_def)
  have d: "toISOString builtins0 (getOpt orderCancelled ''created_at'') = Inr ''2024-01-15T10:30:00.000Z''"
    by (simp add: orderCancelled_def getOpt_def toISOString_def toPrimitive_def builtins0_def)
  have g: "fst (setOrderStatus (envShop customerFault) settings0 builtins0 (getOpt orderCancelled ''name'')
              (JStr (take 10 ''2024-01-15T10:30:00.000Z'')) (JStr ''CANCELLED'') constructor) =
           Inr (JObj [(''success'', JBool True), (''data'', JUndefined), (''error'', JUndefined)])"
    by (simp add: setOrderStatus_def makeRequest_def getToken_def generateToken_def isTokenValid_def
        constructor_def envShop_def methodOf_def tokenRequest_def tokenBody_def extractAccessToken_def
        statusUpdated_def parseStatusResponse_def getOpt_def toStr_def orderCancelled_def Let_def
        now_def GET_TOKEN_def ADD_CUSTOMER_def CREATE_SALES_ORDER_def SET_ORDER_STATUS_def)
  let ?st = "setOrderStatus (envShop customerFault) settings0 builtins0 (getOpt orderCancelled ''name'')
              (JStr (take 10 ''2024-01-15T10:30:00.000Z'')) (resolveStatus orderCancelled) constructor"
  from g a have "?st = (Inr (JObj [(''success'', JBool True), (''data'', JUndefined), (''error'', JUndefined)]), snd ?st)"
    by (metis prod.collapse)
  with T[of orderCancelled builtins0 "envShop customerFault" settings0 constructor] l2 d a
  have "handleOrderUpdate (envShop customerFault) settings0 builtins0 orderCancelled constructor =
        (Inr (JObj [(''success'', getOpt (JObj [(''success'', JBool True), (''data'', JUndefined), (''error'', JUndefined)]) ''success''),
                    (''orderId'', getOpt orderCancelled ''id''),
                    (''status'', resolveStatus orderCancelled),
                    (''error'', getOpt (JObj [(''success'', JBool True), (''data'', JUndefined), (''error'', JUndefined)]) ''error'')]), snd ?st)"
    by (metis truthy.simps(8) list.distinct(1))
  with a i have e: "fst (handleOrderUpdate (envShop customerFault) settings0 builtins0 orderCancelled constructor) =
     Inr (JObj [(''success'', JBool True), (''orderId'', JNum (Num 1001)),
                (''status'', JStr ''CANCELLED''), (''error'', JUndefined)])"
    by (simp add: getOpt_def)
  from a b i e show ?thesis by simp
qed

lemma createSalesOrder_valid_token:
  assumes "transformShopifyOrder b s order = Inr od"
    and "toStr b (orElse (getOpt order ''name'') (getOpt order ''order_number'')) = Inr line"
    and "isTokenValid w (now e w)"
    and "net e (length (sent w)) (gatewayRequest s CREATE_SALES_ORDER (token w) od) = Data resp"
  shows "createSalesOrder e s b order w =
           (parseOrderResponse resp,
            w\<lparr>sent := sent w @ [gatewayRequest s CREATE_SALES_ORDER (token w) od]\<rparr>)"
  using assms
  by (simp add: createSalesOrder_def makeRequest_def getToken_def Let_def gatewayRequest_def)

lemma syncFromShopify_order0:
  "fst (syncFromShopify (envShop cr) settings0 builtins0 (getOpt order0 ''customer'') JNull constructor) =
     (case cr of Fault err \<Rightarrow> Inl err | Data d \<Rightarrow> parseResponse d)"
  "token (snd (syncFromShopify (envShop cr) settings0 builtins0 (getOpt order0 ''customer'') JNull constructor)) =
     JStr ''tok1''"
  "tokenExpiry (snd (syncFromShopify (envShop cr) settings0 builtins0 (getOpt order0 ''customer'') JNull constructor)) =
     Some 1801010"
  "length (sent (snd (syncFromShopify (envShop cr) settings0 builtins0 (getOpt order0 ''customer'') JNull constructor))) = 2"
  by (cases cr; simp add: syncFromShopify_def transformShopifyCustomer_def addCustomer_def
        formatCustomerData_def either_def single_def orElse_def
        makeRequest_def getToken_def generateToken_def isTokenValid_def
        constructor_def envShop_def methodOf_def tokenRequest_def tokenBody_def extractAccessToken_def
        getOpt_def toStr_def order0_def order0Fields_def builtins0_def Let_def tokenLifetimeMinutes_def
        now_def GET_TOKEN_def ADD_CUSTOMER_def CREATE_SALES_ORDER_def SET_ORDER_STATUS_def)+

lemma handleOrderCreate_order0:
  assumes "isl (case cr of Fault err \<Rightarrow> Inl err | Data d \<Rightarrow> parseResponse d) \<or>
           \<not> truthy (getOpt (projr (case cr of Fault err \<Rightarrow> Inl err | Data d \<Rightarrow> parseResponse d)) ''success'')"
  shows "truthy (getOpt order0 ''customer'') \<and>
         createSalesOrder (envShop cr) settings0 builtins0 order0
            (snd (syncFromShopify (envShop cr) settings0 builtins0 (getOpt order0 ''customer'') JNull constructor)) =
           (Inr (JObj [(''success'', JBool True), (''message'', JStr ''Order created''),
                       (''data'', JObj [(''TargetRefID'', JStr ''SO-77'')]), (''error'', JUndefined)]),
            snd (createSalesOrder (envShop cr) settings0 builtins0 order0
                  (snd (syncFromShopify (envShop cr) settings0 builtins0 (getOpt order0 ''customer'') JNull constructor))))"
proof -
  let ?w1 = "snd (syncFromShopify (envShop cr) settings0 builtins0 (getOpt order0 ''customer'') JNull constructor)"
  have c: "truthy (getOpt order0 ''customer'')"
    by (simp add: order0_def order0Fields_def getOpt_def)
  have "\<not> isl (transformShopifyOrder builtins0 settings0 order0)"
    using transformable_order0 by (simp add: isl_transformShopifyOrder)
  then obtain od where od: "transformShopifyOrder builtins0 settings0 order0 = Inr od"
    by (cases "transformShopifyOrder builtins0 settings0 order0") simp_all
  have l: "toStr builtins0 (orElse (getOpt order0 ''name'') (getOpt order0 ''order_number'')) = Inr ''#1001''"
    by (simp add: order0_def order0Fields_def getOpt_def orElse_def toStr_def)
  have v: "isTokenValid ?w1 (now (envShop cr) ?w1)"
    unfolding isTokenValid_def now_def syncFromShopify_order0
    by (simp add: envShop_def tokenRefreshBuffer_def)
  have n: "net (envShop cr) (length (sent ?w1)) (gatewayRequest settings0 CREATE_SALES_ORDER (token ?w1) od) =
           Data orderCreated"
    by (simp add: envShop_def gatewayRequest_def methodOf_def GET_TOKEN_def ADD_CUSTOMER_def
        CREATE_SALES_ORDER_def)
  have p: "parseOrderResponse orderCreated =
           Inr (JObj [(''success'', JBool True), (''message'', JStr ''Order created''),
                       (''data'', JObj [(''TargetRefID'', JStr ''SO-77'')]), (''error'', JUndefined)])"
    by (simp add: parseOrderResponse_def orderCreated_def getOpt_def orElse_def)
  from createSalesOrder_valid_token[OF od l v n] p c show ?thesis by simp
qed

theorem handleOrderCreate_customer_failure_tolerated_witness:
  "isl (fst (syncFromShopify (envShop customerFault) settings0 builtins0 (getOpt order0 ''customer'') JNull constructor)) \<and>
   fst (handleOrderCreate (envShop customerFault) settings0 builtins0 order0 constructor) =
     Inr (JObj [(''success'', JBool True), (''orderId'', JNum (Num 1001)),
                (''eshopaidRef'', JStr ''SO-77'')]) \<and>
   fst (syncFromShopify (envShop customerRejected) settings0 builtins0 (getOpt order0 ''customer'') JNull constructor) =
     Inr (JObj [(''success'', JBool False), (''customerCode'', JUndefined),
                (''error'', JStr ''Duplicate customer'')]) \<and>
   fst (handleOrderCreate (envShop customerRejected) settings0 builtins0 order0 constructor) =
     Inr (JObj [(''success'', JBool True), (''orderId'', JNum (Num 1001)),
                (''eshopaidRef'', JStr ''SO-77'')])"
proof -
  let ?res = "JObj [(''success'', JBool True), (''message'', JStr ''Order created''),
                       (''data'', JObj [(''TargetRefID'', JStr ''SO-77'')]), (''error'', JUndefined)]"
  have i: "getOpt order0 ''id'' = JNum (Num 1001)"
    "getOpt (getOpt ?res ''data'') ''TargetRefID'' = JStr ''SO-77''"
    "truthy (getOpt ?res ''success'')"
    by (simp_all add: order0_def order0Fields_def getOpt_def)
  have out: "fst (handleOrderCreate (envShop cr) settings0 builtins0 order0 constructor) =
     Inr (JObj [(''success'', JBool True), (''orderId'', JNum (Num 1001)),
                (''eshopaidRef'', JStr ''SO-77'')])"
    if f: "isl (case cr of Fault err \<Rightarrow> Inl err | Data d \<Rightarrow> parseResponse d) \<or>
           \<not> truthy (getOpt (projr (case cr of Fault err \<Rightarrow> Inl err | Data d \<Rightarrow> parseResponse d)) ''success'')"
    for cr
  proof -
    let ?sync = "syncFromShopify (envShop cr) settings0 builtins0 (getOpt order0 ''customer'') JNull constructor"
    have s: "?sync = (fst ?sync, snd ?sync)" by simp
    from f have f': "isl (fst ?sync) \<or> \<not> truthy (getOpt (projr (fst ?sync)) ''success'')"
      by (simp add: syncFromShopify_order0)
    from handleOrderCreate_order0[OF f] have c: "truthy (getOpt order0 ''customer'')" and
      o: "createSalesOrder (envShop cr) settings0 builtins0 order0 (snd ?sync) =
           (Inr ?res, snd (createSalesOrder (envShop cr) settings0 builtins0 order0 (snd ?sync)))"
      by blast+
    from handleOrderCreate_customer_failure_tolerated[OF c s f' o i(3)] i
    show ?thesis by simp
  qed
  have a: "isl (fst (syncFromShopify (envShop customerFault) settings0 builtins0 (getOpt order0 ''customer'') JNull constructor))"
    unfolding syncFromShopify_order0 by (simp add: customerFault_def)
  have b: "fst (syncFromShopify (envShop customerRejected) settings0 builtins0 (getOpt order0 ''customer'') JNull constructor) =
     Inr (JObj [(''success'', JBool False), (''customerCode'', JUndefined),
                (''error'', JStr ''Duplicate customer'')])"
    unfolding syncFromShopify_order0 by (simp add: customerRejected_def parseResponse_def getOpt_def)
  have fa: "isl (case customerFault of Fault err \<Rightarrow> Inl err | Data d \<Rightarrow> parseResponse d) \<or>
           \<not> truthy (getOpt (projr (case customerFault of Fault err \<Rightarrow> Inl err | Data d \<Rightarrow> parseResponse d)) ''success'')"
    by (simp add: customerFault_def)
  have fb: "isl (case customerRejected of Fault err \<Rightarrow> Inl err | Data d \<Rightarrow> parseResponse d) \<or>
           \<not> truthy (getOpt (projr (case customerRejected of Fault err \<Rightarrow> Inl err | Data d \<Rightarrow> parseResponse d)) ''success'')"
    by (simp add: customerRejected_def parseResponse_def getOpt_def)
  from a b out[OF fa] out[OF fb] show ?thesis by simp
qed

end
